theory Spec2Isabelle
  imports Main "HOL-Library.Word"
begin

unbundle bit_operations_syntax

section \<open>Value representation (nanbox.hpp)\<close>

text \<open>
  A \<open>Value\<close> is one 64-bit word. A \<open>double\<close> is modelled by its IEEE-754 binary64 bit
  pattern, so \<open>std::memcpy\<close> between \<open>bits\<close> and a \<open>double\<close> is the identity.
  Reference counting (\<open>retain\<close>, \<open>release\<close>) is not modelled.
\<close>

type_synonym double = "64 word"

datatype Type = TNIL | TPAIR | TNUMBER | TSTRING | TSYMBOL | TFUNC | TMACRO | TPRIM | TCFUNC

definition kNaNMask :: "64 word" where "kNaNMask = 0x7FF0000000000000"
definition kTagMask :: "64 word" where "kTagMask = kNaNMask OR 0x000F000000000000"
definition kPayloadMask :: "64 word" where "kPayloadMask = 0x0000FFFFFFFFFFFF"

definition kTagNil :: "64 word" where "kTagNil = kNaNMask OR 0x0000000000000000"
definition kTagPair :: "64 word" where "kTagPair = kNaNMask OR 0x0001000000000000"
definition kTagString :: "64 word" where "kTagString = kNaNMask OR 0x0002000000000000"
definition kTagSymbol :: "64 word" where "kTagSymbol = kNaNMask OR 0x0003000000000000"
definition kTagFunc :: "64 word" where "kTagFunc = kNaNMask OR 0x0004000000000000"
definition kTagMacro :: "64 word" where "kTagMacro = kNaNMask OR 0x0005000000000000"
definition kTagPrim :: "64 word" where "kTagPrim = kNaNMask OR 0x0006000000000000"
definition kTagCFunc :: "64 word" where "kTagCFunc = kNaNMask OR 0x0007000000000000"

text \<open>\<open>Value::Value(Type t)\<close>: the bits of a freshly made value of kind \<open>t\<close>.\<close>

fun Value_of_Type :: "Type \<Rightarrow> 64 word" where
  "Value_of_Type TNIL = kTagNil"
| "Value_of_Type TNUMBER = 0"
| "Value_of_Type TPAIR = kTagPair"
| "Value_of_Type TSTRING = kTagString"
| "Value_of_Type TSYMBOL = kTagSymbol"
| "Value_of_Type TFUNC = kTagFunc"
| "Value_of_Type TMACRO = kTagMacro"
| "Value_of_Type TPRIM = kTagPrim"
| "Value_of_Type TCFUNC = kTagCFunc"

definition kTagMap :: "Type list" where
  "kTagMap = [TNIL, TPAIR, TSTRING, TSYMBOL, TFUNC, TMACRO, TPRIM, TCFUNC,
              TNIL, TNIL, TNIL, TNIL, TNIL, TNIL, TNIL, TNIL]"

definition get_type :: "64 word \<Rightarrow> Type" where
  "get_type bits =
     (if bits AND kNaNMask \<noteq> kNaNMask then TNUMBER
      else kTagMap ! unat (drop_bit 48 bits AND 0xF))"

definition get_number :: "64 word \<Rightarrow> double" where
  "get_number bits = bits"

text \<open>\<open>Value::set_number\<close>: the new bits of the value (the old bits are only released).\<close>

definition set_number :: "64 word \<Rightarrow> double \<Rightarrow> 64 word" where
  "set_number old v = (if v AND kNaNMask = kNaNMask then 0 else v)"

text \<open>\<open>State::make_number\<close> at the level of bits.\<close>

definition make_number_bits :: "double \<Rightarrow> 64 word" where
  "make_number_bits n = set_number (Value_of_Type TNUMBER) n"

section \<open>IEEE-754 binary64 arithmetic\<close>

text \<open>
  The C++ operators on \<open>double\<close> and the LLVM instructions \<open>fadd\<close>, \<open>fsub\<close>,
  \<open>fmul\<close>, \<open>fdiv\<close>, \<open>fcmp\<close> are IEEE-754 binary64 operations in the default
  rounding mode (round to nearest, ties to even). They are defined here on bit patterns:
  a finite double is \<open>(-1) ^ sign * fp_mant * 2 ^ fp_scale\<close>, the exact result of an
  operation is a quotient of naturals, and \<open>fp_round\<close> rounds it. Every NaN result is
  the quiet NaN \<open>fp_qnan\<close> (which NaN an operation returns is not observable in this
  program: a NaN is only tested with \<open>std::isnan\<close> or replaced by \<open>set_number\<close>).
\<close>

definition fp_sign :: "double \<Rightarrow> bool" where
  "fp_sign w = bit w 63"

definition fp_exp :: "double \<Rightarrow> nat" where
  "fp_exp w = unat (drop_bit 52 w AND 0x7FF)"

definition fp_frac :: "double \<Rightarrow> nat" where
  "fp_frac w = unat (w AND 0x000FFFFFFFFFFFFF)"

definition fp_is_nan :: "double \<Rightarrow> bool" where
  "fp_is_nan w = (fp_exp w = 2047 \<and> fp_frac w \<noteq> 0)"

definition fp_is_inf :: "double \<Rightarrow> bool" where
  "fp_is_inf w = (fp_exp w = 2047 \<and> fp_frac w = 0)"

definition fp_is_zero :: "double \<Rightarrow> bool" where
  "fp_is_zero w = (fp_exp w = 0 \<and> fp_frac w = 0)"

definition fp_mant :: "double \<Rightarrow> nat" where
  "fp_mant w = (if fp_exp w = 0 then fp_frac w else 2 ^ 52 + fp_frac w)"

definition fp_scale :: "double \<Rightarrow> int" where
  "fp_scale w = int (max (fp_exp w) 1) - 1075"

definition fp_qnan :: double where
  "fp_qnan = 0x7FF8000000000000"

definition fp_inf :: "bool \<Rightarrow> double" where
  "fp_inf s = (if s then 0xFFF0000000000000 else 0x7FF0000000000000)"

definition fp_zero :: "bool \<Rightarrow> double" where
  "fp_zero s = (if s then 0x8000000000000000 else 0)"

fun bitlen :: "nat \<Rightarrow> nat" where
  "bitlen n = (if n = 0 then 0 else Suc (bitlen (n div 2)))"

declare bitlen.simps [simp del]

definition round_half_even :: "nat \<Rightarrow> nat \<Rightarrow> nat" where
  "round_half_even num den =
     (let q = num div den; r = num mod den
      in if 2 * r < den then q else if den < 2 * r then q + 1
         else if even q then q else q + 1)"

definition fp_round :: "bool \<Rightarrow> nat \<Rightarrow> nat \<Rightarrow> double" where
  "fp_round s N D =
     (let e0 = int (bitlen N) - int (bitlen D);
          e = (if (if 0 \<le> e0 then D * 2 ^ nat e0 \<le> N else D \<le> N * 2 ^ nat (- e0))
               then e0 else e0 - 1);
          E = max e (- 1022) - 52;
          k = (if 0 \<le> E then round_half_even N (D * 2 ^ nat E)
               else round_half_even (N * 2 ^ nat (- E)) D);
          mag = nat (E + 1074) * 2 ^ 52 + k
      in if 0x7FF0000000000000 \<le> mag then fp_inf s else of_nat mag OR fp_zero s)"

definition fp_round_scaled :: "bool \<Rightarrow> nat \<Rightarrow> int \<Rightarrow> double" where
  "fp_round_scaled s M E =
     (if 0 \<le> E then fp_round s (M * 2 ^ nat E) 1 else fp_round s M (2 ^ nat (- E)))"

definition fp_signed_mant :: "double \<Rightarrow> int" where
  "fp_signed_mant w = (if fp_sign w then - int (fp_mant w) else int (fp_mant w))"

definition fp_add :: "double \<Rightarrow> double \<Rightarrow> double" where
  "fp_add a b =
     (if fp_is_nan a \<or> fp_is_nan b then fp_qnan
      else if fp_is_inf a then (if fp_is_inf b \<and> fp_sign a \<noteq> fp_sign b then fp_qnan else a)
      else if fp_is_inf b then b
      else
        (let E = min (fp_scale a) (fp_scale b);
             x = fp_signed_mant a * 2 ^ nat (fp_scale a - E)
               + fp_signed_mant b * 2 ^ nat (fp_scale b - E)
         in if x = 0 then fp_zero (fp_sign a \<and> fp_sign b)
            else fp_round_scaled (x < 0) (nat \<bar>x\<bar>) E))"

definition fp_neg :: "double \<Rightarrow> double" where
  "fp_neg a = a XOR 0x8000000000000000"

definition fp_sub :: "double \<Rightarrow> double \<Rightarrow> double" where
  "fp_sub a b = fp_add a (fp_neg b)"

definition fp_mul :: "double \<Rightarrow> double \<Rightarrow> double" where
  "fp_mul a b =
     (if fp_is_nan a \<or> fp_is_nan b then fp_qnan
      else
        (let s = (fp_sign a \<noteq> fp_sign b)
         in if fp_is_inf a \<or> fp_is_inf b
            then (if fp_is_zero a \<or> fp_is_zero b then fp_qnan else fp_inf s)
            else if fp_is_zero a \<or> fp_is_zero b then fp_zero s
            else fp_round_scaled s (fp_mant a * fp_mant b) (fp_scale a + fp_scale b)))"

definition fp_div :: "double \<Rightarrow> double \<Rightarrow> double" where
  "fp_div a b =
     (if fp_is_nan a \<or> fp_is_nan b then fp_qnan
      else
        (let s = (fp_sign a \<noteq> fp_sign b)
         in if fp_is_inf a then (if fp_is_inf b then fp_qnan else fp_inf s)
            else if fp_is_inf b then fp_zero s
            else if fp_is_zero b then (if fp_is_zero a then fp_qnan else fp_inf s)
            else if fp_is_zero a then fp_zero s
            else
              (let E = fp_scale a - fp_scale b
               in if 0 \<le> E then fp_round s (fp_mant a * 2 ^ nat E) (fp_mant b)
                  else fp_round s (fp_mant a) (fp_mant b * 2 ^ nat (- E)))))"

definition fp_key :: "double \<Rightarrow> int" where
  "fp_key w = (let m = int (unat (w AND 0x7FFFFFFFFFFFFFFF)) in if fp_sign w then - m else m)"

definition fp_ordered :: "double \<Rightarrow> double \<Rightarrow> bool" where
  "fp_ordered a b = (\<not> fp_is_nan a \<and> \<not> fp_is_nan b)"

definition fp_lt :: "double \<Rightarrow> double \<Rightarrow> bool" where
  "fp_lt a b = (fp_ordered a b \<and> fp_key a < fp_key b)"
definition fp_gt :: "double \<Rightarrow> double \<Rightarrow> bool" where
  "fp_gt a b = (fp_ordered a b \<and> fp_key a > fp_key b)"
definition fp_le :: "double \<Rightarrow> double \<Rightarrow> bool" where
  "fp_le a b = (fp_ordered a b \<and> fp_key a \<le> fp_key b)"
definition fp_ge :: "double \<Rightarrow> double \<Rightarrow> bool" where
  "fp_ge a b = (fp_ordered a b \<and> fp_key a \<ge> fp_key b)"
definition fp_eq :: "double \<Rightarrow> double \<Rightarrow> bool" where
  "fp_eq a b = (fp_ordered a b \<and> fp_key a = fp_key b)"
definition fp_one :: "double \<Rightarrow> double \<Rightarrow> bool" where
  "fp_one a b = (fp_ordered a b \<and> fp_key a \<noteq> fp_key b)"



definition fp_trunc_int :: "double \<Rightarrow> int option" where
  \<comment> \<open>the C++ conversion \<open>(int) d\<close>: truncation, undefined (\<open>None\<close>) out of range\<close>
  "fp_trunc_int w =
     (if fp_is_nan w \<or> fp_is_inf w then None
      else
        (let m = (if 0 \<le> fp_scale w then int (fp_mant w) * 2 ^ nat (fp_scale w)
                  else int (fp_mant w) div 2 ^ nat (- fp_scale w));
             i = (if fp_sign w then - m else m)
         in if - 2147483648 \<le> i \<and> i \<le> 2147483647 then Some i else None))"

section \<open>Runtime values, heap records and the interpreter state\<close>

text \<open>
  Values are modelled by their kind and payload. A number carries the bits stored by
  \<open>set_number\<close>; strings and symbols carry their text (symbols are interned, so the text
  is their identity); a pair carries its two fields, so values are finite trees and the
  in-place mutators \<open>setcar\<close> and \<open>setcdr\<close> have no model (calling them on a pair is
  \<open>Undefined\<close> below); functions and macros are addresses of their heap records;
  primitives and builtins are named by the name they are registered under.
\<close>

datatype val =
    Nil
  | Num double
  | Str string
  | Sym string
  | Pair val val
  | Func nat
  | Macro nat
  | Prim string
  | CFunc string

fun val_type :: "val \<Rightarrow> Type" where
  "val_type Nil = TNIL"
| "val_type (Num _) = TNUMBER"
| "val_type (Str _) = TSTRING"
| "val_type (Sym _) = TSYMBOL"
| "val_type (Pair _ _) = TPAIR"
| "val_type (Func _) = TFUNC"
| "val_type (Macro _) = TMACRO"
| "val_type (Prim _) = TPRIM"
| "val_type (CFunc _) = TCFUNC"

text \<open>\<open>State::make_number\<close>: the number value holding \<open>n\<close> after \<open>set_number\<close>.\<close>

definition make_number :: "double \<Rightarrow> val" where
  "make_number n = Num (make_number_bits n)"

record SourceLoc =
  loc_file :: string
  loc_line :: nat
  loc_col :: nat
  loc_label :: string

text \<open>
  The two exception types that cross the evaluator: \<open>std::runtime_error\<close> with its
  message, and \<open>ParseError\<close> with a location, a message and a call chain.
\<close>

datatype error =
    RuntimeError string
  | ParseError SourceLoc string "SourceLoc list"

fun what :: "error \<Rightarrow> string" where
  "what (RuntimeError msg) = msg"
| "what (ParseError loc msg chain) = msg"

text \<open>
  How a computation ends: with a value, with a C++ exception, with \<open>std::exit\<close>, with
  behaviour the model does not define (C++ undefined behaviour such as a wild pointer,
  or pair mutation), or without an answer in the given number of steps.
\<close>

datatype 'a outcome =
    Value 'a
  | Throw error
  | Exited int
  | Undefined
  | OutOfFuel

fun pass :: "'a outcome \<Rightarrow> 'b outcome" where
  "pass (Value _) = Undefined"
| "pass (Throw e) = Throw e"
| "pass (Exited c) = Exited c"
| "pass Undefined = Undefined"
| "pass OutOfFuel = OutOfFuel"

subsection \<open>The code emitted by the JIT\<close>

text \<open>
  The LLVM IR built by \<open>JITIREmitter\<close>, as a tree: one constructor for each value the
  emitter creates. Operands are evaluated in the order they are emitted. \<open>CondPhi\<close> is
  the chain of blocks of \<open>compileCond\<close> ending in the phi node, \<open>WhileLoop\<close> the three
  blocks of \<open>compileWhile\<close>, \<open>LetStores\<close> the stores of \<open>compileLet\<close> followed by the body.
\<close>

datatype fcmp = OLT | OGT | OLE | OGE | OEQ

datatype ir =
    ConstantFP double
  | LoadArg nat
  | LoadLocal string
  | CallLookupNumber "nat option" string
  | FAdd ir ir
  | FSub ir ir
  | FMul ir ir
  | FDiv ir ir
  | SelectFCmp fcmp ir ir
  | CondPhi "(ir \<times> ir list) list"
  | WhileLoop ir "ir list"
  | LetStores "(string \<times> ir) list" "ir list"
  | CallNative nat "ir list"
  | CallBridge nat "ir list"

subsection \<open>Heap records\<close>

record Env =
  Env_map :: "string \<rightharpoonup> val"
  Env_parent :: "nat option"

record FuncData =
  params :: val
  body :: val
  closure_env :: "nat option"
  call_count :: "64 word"
  num_call_count :: "64 word"
  compiled_code :: "ir list option"
  jit_failed :: bool

record MacroData =
  macro_params :: val
  macro_body :: val
  macro_closure_env :: "nat option"

text \<open>
  The interpreter state. The three heaps are lists and an address is an index; nothing
  is ever freed in the model. \<open>src_map\<close> and \<open>src_call_chain_map\<close> are keyed by
  \<open>identity_key()\<close>, the bits of a value: the model keys them by the value, which is exact
  for numbers and interned symbols and merges structurally equal pairs and strings.
  \<open>out\<close> is what has been written to \<open>std::cout\<close>. \<open>jit_active_state\<close> tells whether the
  global pointer of that name is set. The symbol intern table has no observable effect
  here and is left out.
\<close>

record State =
  global :: "nat option"
  envs :: "Env list"
  funcs :: "FuncData list"
  macros :: "MacroData list"
  current_expr :: val
  src_map :: "val \<rightharpoonup> SourceLoc"
  src_call_chain_map :: "val \<rightharpoonup> SourceLoc list"
  sources :: "string \<rightharpoonup> string"
  loaded_modules :: "string \<rightharpoonup> val"
  out :: string
  jit_active_state :: bool

type_synonym 'a result = "'a outcome \<times> State"

text \<open>
  What the program takes from outside: the stream formatting of a double, the reader
  (\<open>parse_at\<close> in helpers.cpp, with the source locations it records) and the file system.
\<close>

record World =
  format_double :: "double \<Rightarrow> string"
  read_one :: "string \<Rightarrow> string \<Rightarrow> (error + val) \<times> (val \<times> SourceLoc) list"
  read_all :: "string \<Rightarrow> string \<Rightarrow> (error + val) \<times> (val \<times> SourceLoc) list"
  fs_exists :: "string \<Rightarrow> bool"
  fs_canonical :: "string \<Rightarrow> string option"
  fs_absolute :: "string \<Rightarrow> string"
  fs_read :: "string \<Rightarrow> string option"

definition heap_get :: "'a list \<Rightarrow> nat \<Rightarrow> 'a option" where
  "heap_get h a = (if a < length h then Some (h ! a) else None)"

subsection \<open>helpers.hpp\<close>

fun truthy :: "val \<Rightarrow> bool" where
  "truthy Nil = False"
| "truthy _ = True"

fun pair_car :: "val \<Rightarrow> val" where
  "pair_car (Pair a d) = a"
| "pair_car _ = Nil"

fun pair_cdr :: "val \<Rightarrow> val" where
  "pair_cdr (Pair a d) = d"
| "pair_cdr _ = Nil"

fun is_pair :: "val \<Rightarrow> bool" where
  "is_pair (Pair a d) = True"
| "is_pair _ = False"

fun is_symbol :: "val \<Rightarrow> string \<Rightarrow> bool" where
  "is_symbol (Sym s) name = (s = name)"
| "is_symbol _ name = False"

text \<open>\<open>Value::type_name\<close> behind the nil test of the helper \<open>type_name\<close>.\<close>

fun type_name :: "State \<Rightarrow> val \<Rightarrow> string" where
  "type_name S Nil = ''nil''"
| "type_name S (Pair a d) = ''pair''"
| "type_name S (Num n) = ''number''"
| "type_name S (Str s) = ''string''"
| "type_name S (Sym s) = ''symbol''"
| "type_name S (Func a) =
     (case heap_get (funcs S) a of
        Some fd \<Rightarrow> if compiled_code fd \<noteq> None then ''jit_func'' else ''function''
      | None \<Rightarrow> ''function'')"
| "type_name S (Macro a) = ''macro''"
| "type_name S (Prim p) = ''prim''"
| "type_name S (CFunc c) = ''cfunction''"

fun require_number :: "State \<Rightarrow> val \<Rightarrow> string \<Rightarrow> error + double" where
  "require_number S (Num n) who = Inr n"
| "require_number S v who =
     Inl (RuntimeError (who @ '': expected number, got '' @ type_name S v))"

text \<open>
  \<open>value_equal\<close>. \<open>a == b\<close> compares bits: equal bits means the same number bits, the
  same interned symbol or the same heap object or function pointer. For strings and pairs
  the same object has the same contents, so the later cases return \<open>true\<close> as well.
\<close>

fun value_equal :: "val \<Rightarrow> val \<Rightarrow> bool" where
  "value_equal (Num x) (Num y) = (x = y \<or> fp_eq x y)"
| "value_equal (Str x) (Str y) = (x = y)"
| "value_equal (Sym x) (Sym y) = (x = y)"
| "value_equal (Pair a1 d1) (Pair a2 d2) = (value_equal a1 a2 \<and> value_equal d1 d2)"
| "value_equal a b = (a = b)"

text \<open>\<open>Value::to_repr\<close> and \<open>State::to_string\<close>.\<close>

fun to_repr :: "World \<Rightarrow> State \<Rightarrow> val \<Rightarrow> string"
  and repr_tail :: "World \<Rightarrow> State \<Rightarrow> val \<Rightarrow> string" where
  "to_repr W S (Num n) = format_double W n"
| "to_repr W S (Str s) = s"
| "to_repr W S (Sym s) = s"
| "to_repr W S (Pair a d) =
     ''('' @ (if a = Nil then ''nil'' else to_repr W S a) @ repr_tail W S d @ '')''"
| "to_repr W S (CFunc c) = ''<cfunc>''"
| "to_repr W S (Macro m) = ''<macro>''"
| "to_repr W S (Prim p) = ''<prim>''"
| "to_repr W S (Func a) =
     (case heap_get (funcs S) a of
        Some fd \<Rightarrow> if compiled_code fd \<noteq> None then ''<jit_func>'' else ''<function>''
      | None \<Rightarrow> ''<function>'')"
| "to_repr W S Nil = ''<?>''"
| "repr_tail W S (Pair a d) =
     '' '' @ (if a = Nil then ''nil'' else to_repr W S a) @ repr_tail W S d"
| "repr_tail W S Nil = []"
| "repr_tail W S v = '' . '' @ to_repr W S v"

definition to_string :: "World \<Rightarrow> State \<Rightarrow> val \<Rightarrow> string" where
  "to_string W S v = (if v = Nil then ''nil'' else to_repr W S v)"

subsection \<open>Source locations\<close>

definition set_source_loc :: "val \<Rightarrow> string \<Rightarrow> nat \<Rightarrow> nat \<Rightarrow> State \<Rightarrow> State" where
  "set_source_loc v f l c S =
     (if v = Nil then S
      else S\<lparr>src_map := (src_map S)(v \<mapsto> \<lparr>loc_file = f, loc_line = l, loc_col = c, loc_label = []\<rparr>)\<rparr>)"

definition get_source_loc :: "State \<Rightarrow> val \<Rightarrow> SourceLoc option" where
  "get_source_loc S v = (if v = Nil then None else src_map S v)"

text \<open>
  \<open>with_call_chain\<close>: what the two \<open>catch\<close> clauses make of the outcome of \<open>fn()\<close>.
\<close>

fun with_call_chain ::
  "bool \<Rightarrow> SourceLoc \<Rightarrow> SourceLoc list \<Rightarrow> 'a outcome \<Rightarrow> 'a outcome" where
  "with_call_chain have_call_loc call_loc entry (Throw (ParseError loc msg chain)) =
     (if have_call_loc then Throw (ParseError loc msg (entry @ chain))
      else Throw (ParseError loc msg chain))"
| "with_call_chain have_call_loc call_loc entry (Throw (RuntimeError msg)) =
     (if have_call_loc then Throw (ParseError call_loc msg entry)
      else Throw (RuntimeError msg))"
| "with_call_chain have_call_loc call_loc entry r = r"

subsection \<open>Environments (vdlisp.cpp)\<close>

definition make_env :: "nat option \<Rightarrow> State \<Rightarrow> nat \<times> State" where
  "make_env parent S =
     (length (envs S), S\<lparr>envs := envs S @ [\<lparr>Env_map = Map.empty, Env_parent = parent\<rparr>]\<rparr>)"

text \<open>
  The loop \<open>while (e) { find; e = e->parent; }\<close> shared by \<open>eval\<close>, \<open>set\<close>, \<open>get_bound\<close>
  and the JIT helpers. It returns the environment that holds the nearest binding and the
  bound value. A chain without a cycle visits at most every environment once, so with
  \<open>length es + 1\<close> steps the walk only runs out when the chain is cyclic and the C++ loop
  does not end.
\<close>

fun env_find :: "nat \<Rightarrow> Env list \<Rightarrow> nat option \<Rightarrow> string \<Rightarrow> (nat \<times> val) option outcome" where
  "env_find 0 es e key = OutOfFuel"
| "env_find (Suc n) es None key = Value None"
| "env_find (Suc n) es (Some a) key =
     (case heap_get es a of
        None \<Rightarrow> Undefined
      | Some E \<Rightarrow>
          (case Env_map E key of
             Some v \<Rightarrow> Value (Some (a, v))
           | None \<Rightarrow> env_find n es (Env_parent E) key))"

definition env_lookup :: "State \<Rightarrow> nat option \<Rightarrow> string \<Rightarrow> (nat \<times> val) option outcome" where
  "env_lookup S e key = env_find (Suc (length (envs S))) (envs S) e key"

definition env_store :: "nat \<Rightarrow> string \<Rightarrow> val \<Rightarrow> State \<Rightarrow> State" where
  \<comment> \<open>\<open>e->map[key] = v\<close> for an environment \<open>e\<close> of the heap\<close>
  "env_store a key v S =
     S\<lparr>envs := (envs S)[a := (envs S ! a)\<lparr>Env_map := (Env_map (envs S ! a))(key \<mapsto> v)\<rparr>]\<rparr>"

definition or_global :: "State \<Rightarrow> nat option \<Rightarrow> nat option" where
  \<comment> \<open>\<open>if (!env) env = global;\<close>\<close>
  "or_global S env = (case env of None \<Rightarrow> global S | Some a \<Rightarrow> Some a)"

text \<open>
  \<open>State::bind\<close> and \<open>State::set\<close> return their parameter \<open>v\<close> after it has been moved
  from, which is nil.
\<close>

definition State_bind :: "val \<Rightarrow> val \<Rightarrow> nat option \<Rightarrow> State \<Rightarrow> val result" where
  "State_bind symv v env S =
     (case symv of
        Sym s \<Rightarrow>
          (case or_global S env of
             None \<Rightarrow> (Undefined, S)
           | Some a \<Rightarrow> if a < length (envs S) then (Value Nil, env_store a s v S)
                       else (Undefined, S))
      | _ \<Rightarrow> (Throw (RuntimeError ''bind expects a symbol''), S))"

definition State_set :: "val \<Rightarrow> val \<Rightarrow> nat option \<Rightarrow> State \<Rightarrow> val result" where
  "State_set symv v env S =
     (case symv of
        Sym key \<Rightarrow>
          (case env_lookup S (or_global S env) key of
             Value (Some (a, old)) \<Rightarrow> (Value Nil, env_store a key v S)
           | Value None \<Rightarrow> State_bind symv v (or_global S env) S
           | r \<Rightarrow> (pass r, S))
      | _ \<Rightarrow> (Undefined, S))"

definition bind_global :: "string \<Rightarrow> val \<Rightarrow> State \<Rightarrow> State" where
  "bind_global name v S = (case global S of Some g \<Rightarrow> env_store g name v S | None \<Rightarrow> S)"

definition get_bound :: "State \<Rightarrow> string \<Rightarrow> nat option \<Rightarrow> val outcome" where
  "get_bound S name env =
     (case env_lookup S (or_global S env) name of
        Value (Some (a, v)) \<Rightarrow> Value v
      | Value None \<Rightarrow> Value Nil
      | r \<Rightarrow> pass r)"

text \<open>
  \<open>bind_params_to_env\<close>; \<open>None\<close> where the loop calls \<open>get_pair()\<close> on a value that is
  not a pair.
\<close>

fun bind_params_to_env ::
  "(string \<rightharpoonup> val) \<Rightarrow> val \<Rightarrow> val \<Rightarrow> bool \<Rightarrow> (string \<rightharpoonup> val) option" where
  "bind_params_to_env m Nil a fill = Some m"
| "bind_params_to_env m (Sym s) a fill = Some (m(s \<mapsto> a))"
| "bind_params_to_env m (Pair pcar pcdr) a fill =
     (if \<not> fill \<and> a = Nil then Some m
      else
        (case a of
           Nil \<Rightarrow>
             bind_params_to_env (case pcar of Sym s \<Rightarrow> m(s \<mapsto> Nil) | _ \<Rightarrow> m) pcdr Nil fill
         | Pair acar acdr \<Rightarrow>
             bind_params_to_env (case pcar of Sym s \<Rightarrow> m(s \<mapsto> acar) | _ \<Rightarrow> m) pcdr acdr fill
         | _ \<Rightarrow> None))"
| "bind_params_to_env m p a fill = (if \<not> fill \<and> a = Nil then Some m else None)"

section \<open>The IR emitter (jit_ir_emitter.cpp, jit_ir_builder.cpp)\<close>

definition fp_const_one :: double where
  "fp_const_one = 0x3FF0000000000000"

fun fcmp_holds :: "fcmp \<Rightarrow> double \<Rightarrow> double \<Rightarrow> bool" where
  "fcmp_holds OLT a b = fp_lt a b"
| "fcmp_holds OGT a b = fp_gt a b"
| "fcmp_holds OLE a b = fp_le a b"
| "fcmp_holds OGE a b = fp_ge a b"
| "fcmp_holds OEQ a b = fp_eq a b"

definition select_fcmp :: "fcmp \<Rightarrow> double \<Rightarrow> double \<Rightarrow> double" where
  "select_fcmp p a b = (if fcmp_holds p a b then fp_const_one else 0)"

text \<open>
  The \<open>IRBuilder\<close> calls. The builder's constant folder returns a constant, not an
  instruction, when every operand is a constant.
\<close>

fun CreateFAdd :: "ir \<Rightarrow> ir \<Rightarrow> ir" where
  "CreateFAdd (ConstantFP x) (ConstantFP y) = ConstantFP (fp_add x y)"
| "CreateFAdd a b = FAdd a b"

fun CreateFSub :: "ir \<Rightarrow> ir \<Rightarrow> ir" where
  "CreateFSub (ConstantFP x) (ConstantFP y) = ConstantFP (fp_sub x y)"
| "CreateFSub a b = FSub a b"

fun CreateFMul :: "ir \<Rightarrow> ir \<Rightarrow> ir" where
  "CreateFMul (ConstantFP x) (ConstantFP y) = ConstantFP (fp_mul x y)"
| "CreateFMul a b = FMul a b"

fun CreateFDiv :: "ir \<Rightarrow> ir \<Rightarrow> ir" where
  "CreateFDiv (ConstantFP x) (ConstantFP y) = ConstantFP (fp_div x y)"
| "CreateFDiv a b = FDiv a b"

fun CreateSelectFCmp :: "fcmp \<Rightarrow> ir \<Rightarrow> ir \<Rightarrow> ir" where
  "CreateSelectFCmp p (ConstantFP x) (ConstantFP y) = ConstantFP (select_fcmp p x y)"
| "CreateSelectFCmp p a b = SelectFCmp p a b"

text \<open>
  The emitter: the closure environment of the function being compiled and the
  \<open>param_index\<close> map built by the constructor. The set \<open>locals\<close> of names that have a
  stack slot grows during emission and is threaded through the functions below.
\<close>

record Emitter =
  func_closure_env :: "nat option"
  param_index :: "string \<rightharpoonup> nat"

text \<open>The constructor's loop over \<open>func->params\<close>; \<open>None\<close> for \<open>get_pair()\<close> of a non-pair.\<close>

fun param_index_of :: "val \<Rightarrow> nat \<Rightarrow> (string \<rightharpoonup> nat) \<Rightarrow> (string \<rightharpoonup> nat) option" where
  "param_index_of Nil idx m = Some m"
| "param_index_of (Sym s) idx m = Some (m(s \<mapsto> idx))"
| "param_index_of (Pair pname pcdr) idx m =
     (case pname of
        Sym s \<Rightarrow> param_index_of pcdr (Suc idx) (m(s \<mapsto> idx))
      | _ \<Rightarrow> param_index_of pcdr idx m)"
| "param_index_of p idx m = None"

definition ensure_local :: "string \<Rightarrow> string list \<Rightarrow> string list" where
  "ensure_local name locals = (if name \<in> set locals then locals else locals @ [name])"

text \<open>
  What \<open>emitExpr\<close> does with an operator that is neither a control form nor arithmetic
  nor a comparison: the operator is looked up in the closure chain of the function being
  compiled (not in the global environment when that chain is empty).
\<close>

definition emit_call :: "State \<Rightarrow> Emitter \<Rightarrow> string \<Rightarrow> ir list \<Rightarrow> ir option outcome" where
  "emit_call S em opname vals =
     (case env_lookup S (func_closure_env em) opname of
        Value (Some (e, Func callee)) \<Rightarrow>
          (case heap_get (funcs S) callee of
             None \<Rightarrow> Undefined
           | Some callee_fd \<Rightarrow>
               if compiled_code callee_fd \<noteq> None then Value (Some (CallNative callee vals))
               else Value (Some (CallBridge callee vals)))
      | Value _ \<Rightarrow> Value None
      | r \<Rightarrow> pass r)"

definition emit_op :: "State \<Rightarrow> Emitter \<Rightarrow> string \<Rightarrow> ir list \<Rightarrow> ir option outcome" where
  "emit_op S em opname vals =
     (if opname = ''+'' then
        Value (case vals of [a, b] \<Rightarrow> Some (CreateFAdd a b) | _ \<Rightarrow> None)
      else if opname = ''*'' then
        Value (case vals of [a, b] \<Rightarrow> Some (CreateFMul a b) | _ \<Rightarrow> None)
      else if opname = ''-'' then
        Value (case vals of [a, b] \<Rightarrow> Some (CreateFSub a b) | _ \<Rightarrow> None)
      else if opname = ''/'' then
        Value (case vals of [a, b] \<Rightarrow> Some (CreateFDiv a b) | _ \<Rightarrow> None)
      else if opname = ''<'' then
        Value (case vals of [a, b] \<Rightarrow> Some (CreateSelectFCmp OLT a b) | _ \<Rightarrow> None)
      else if opname = ''>'' then
        Value (case vals of [a, b] \<Rightarrow> Some (CreateSelectFCmp OGT a b) | _ \<Rightarrow> None)
      else if opname = ''<='' then
        Value (case vals of [a, b] \<Rightarrow> Some (CreateSelectFCmp OLE a b) | _ \<Rightarrow> None)
      else if opname = ''>='' then
        Value (case vals of [a, b] \<Rightarrow> Some (CreateSelectFCmp OGE a b) | _ \<Rightarrow> None)
      else if opname = ''='' then
        Value (case vals of [a, b] \<Rightarrow> Some (CreateSelectFCmp OEQ a b) | _ \<Rightarrow> None)
      else emit_call S em opname vals)"

definition emit_symbol :: "Emitter \<Rightarrow> string list \<Rightarrow> string \<Rightarrow> ir" where
  "emit_symbol em locals s =
     (if s = ''#t'' then ConstantFP fp_const_one
      else
        (case param_index em s of
           Some i \<Rightarrow> LoadArg i
         | None \<Rightarrow>
             if s \<in> set locals then LoadLocal s
             else CallLookupNumber (func_closure_env em) s))"

lemma size_pair_car [termination_simp]: "size (pair_car v) < Suc (size v)"
  by (cases v) auto

lemma size_pair_cdr [termination_simp]: "size (pair_cdr v) < Suc (size v)"
  by (cases v) auto

lemma size_pair_car_cdr [termination_simp]: "size (pair_car (pair_cdr v)) < Suc (size v)"
  using size_pair_car [of "pair_cdr v"] size_pair_cdr [of v] by linarith

lemma size_pair_cdr_cdr [termination_simp]: "size (pair_cdr (pair_cdr v)) < Suc (size v)"
  using size_pair_cdr [of "pair_cdr v"] size_pair_cdr [of v] by linarith

lemma size_pair_car_add [termination_simp]:
  "size (pair_car v) < Suc (size v + n)" "size (pair_car v) < Suc (n + size v)"
  using size_pair_car [of v] by linarith+

lemma size_pair_cdr_add [termination_simp]:
  "size (pair_cdr v) < Suc (size v + n)" "size (pair_cdr v) < Suc (n + size v)"
  using size_pair_cdr [of v] by linarith+

lemma size_pair_car_cdr_add [termination_simp]:
  "size (pair_car (pair_cdr v)) < Suc (size v + n)"
  "size (pair_car (pair_cdr v)) < Suc (n + size v)"
  using size_pair_car_cdr [of v] by linarith+

lemma size_pair_cdr_cdr_add [termination_simp]:
  "size (pair_cdr (pair_cdr v)) < Suc (size v + n)"
  "size (pair_cdr (pair_cdr v)) < Suc (n + size v)"
  using size_pair_cdr_cdr [of v] by linarith+

definition emit_then ::
  "'a option outcome \<Rightarrow> ('a \<Rightarrow> 'b option outcome) \<Rightarrow> 'b option outcome" where
  "emit_then m f =
     (case m of Value (Some x) \<Rightarrow> f x | Value None \<Rightarrow> Value None | r \<Rightarrow> pass r)"

text \<open>
  \<open>emitExpr\<close>, \<open>compileCond\<close>, \<open>compileWhile\<close> and \<open>compileLet\<close>. The result is
  \<open>Value (Some (v, locals))\<close> for an emitted value, \<open>Value None\<close> for \<open>nullptr\<close>, and
  \<open>Undefined\<close> where a loop calls \<open>get_pair()\<close> on a value that is not a pair.
  \<open>emit_operands\<close> is the loop that advances with \<open>get_pair()->cdr\<close> (operands, the bodies
  of \<open>cond\<close> clauses and of \<open>while\<close>); \<open>emit_body\<close> is the loop that advances with
  \<open>pair_cdr\<close> (the body of \<open>let\<close> and of the function).
\<close>

function (sequential) emitExpr :: "State \<Rightarrow> Emitter \<Rightarrow> string list \<Rightarrow> val \<Rightarrow> (ir \<times> string list) option outcome"
  and emit_operands ::
    "State \<Rightarrow> Emitter \<Rightarrow> string list \<Rightarrow> val \<Rightarrow> (ir list \<times> string list) option outcome"
  and emit_body ::
    "State \<Rightarrow> Emitter \<Rightarrow> string list \<Rightarrow> val \<Rightarrow> (ir list \<times> string list) option outcome"
  and emit_clauses ::
    "State \<Rightarrow> Emitter \<Rightarrow> string list \<Rightarrow> val \<Rightarrow>
       ((ir \<times> ir list) list \<times> string list) option outcome"
  and emit_bindings_paired ::
    "State \<Rightarrow> Emitter \<Rightarrow> string list \<Rightarrow> val \<Rightarrow>
       ((string \<times> ir) list \<times> string list) option outcome"
  and emit_bindings_flat ::
    "State \<Rightarrow> Emitter \<Rightarrow> string list \<Rightarrow> val \<Rightarrow>
       ((string \<times> ir) list \<times> string list) option outcome"
  where
  "emitExpr S em locals Nil = Value (Some (ConstantFP 0, locals))"
| "emitExpr S em locals (Num n) = Value (Some (ConstantFP n, locals))"
| "emitExpr S em locals (Sym s) = Value (Some (emit_symbol em locals s, locals))"
| "emitExpr S em locals (Pair op rest) =
     (case op of
        Sym opname \<Rightarrow>
          if opname = ''cond'' then
            (if rest = Nil then Value (Some (ConstantFP 0, locals))
             else emit_then (emit_clauses S em locals rest)
                    (\<lambda>(cs, l1). Value (Some (CondPhi cs, l1))))
          else if opname = ''while'' then
            (if is_pair rest then
               emit_then (emitExpr S em locals (pair_car rest)) (\<lambda>(condv, l1).
               emit_then (emit_operands S em l1 (pair_cdr rest)) (\<lambda>(bs, l2).
               Value (Some (WhileLoop condv bs, l2))))
             else Undefined)
          else if opname = ''let'' then
            (if is_pair rest then
               emit_then
                 (if is_pair (pair_car rest) \<and> is_pair (pair_car (pair_car rest))
                  then emit_bindings_paired S em locals (pair_car rest)
                  else emit_bindings_flat S em locals (pair_car rest)) (\<lambda>(stores, l1).
               emit_then (emit_body S em l1 (pair_cdr rest)) (\<lambda>(bs, l2).
               Value (Some (LetStores stores bs, l2))))
             else Undefined)
          else
            emit_then (emit_operands S em locals rest) (\<lambda>(vals, l1).
            emit_then (emit_op S em opname vals) (\<lambda>v.
            Value (Some (v, l1))))
      | _ \<Rightarrow> Value None)"
| "emitExpr S em locals expr = Value None"
| "emit_operands S em locals Nil = Value (Some ([], locals))"
| "emit_operands S em locals (Pair av rest) =
        emit_then (emitExpr S em locals av) (\<lambda>(v, l1).
        emit_then (emit_operands S em l1 rest) (\<lambda>(vs, l2).
        Value (Some (v # vs, l2))))"
| "emit_operands S em locals a = Undefined"
| "emit_body S em locals Nil = Value (Some ([], locals))"
| "emit_body S em locals (Pair ex rest) =
        emit_then (emitExpr S em locals ex) (\<lambda>(v, l1).
        emit_then (emit_body S em l1 rest) (\<lambda>(vs, l2).
        Value (Some (v # vs, l2))))"
| "emit_body S em locals b = Value (Some ([ConstantFP 0], locals))"
| "emit_clauses S em locals Nil = Value (Some ([], locals))"
| "emit_clauses S em locals (Pair clause rest) =
        emit_then (emitExpr S em locals (pair_car clause)) (\<lambda>(condv, l1).
        emit_then (emit_operands S em l1 (pair_cdr clause)) (\<lambda>(bs, l2).
        emit_then (emit_clauses S em l2 rest) (\<lambda>(cs, l3).
        Value (Some ((condv, bs) # cs, l3)))))"
| "emit_clauses S em locals w = Undefined"
| "emit_bindings_paired S em locals Nil = Value (Some ([], locals))"
| "emit_bindings_paired S em locals (Pair pr rest) =
        (case pair_car pr of
           Sym name \<Rightarrow>
             emit_then (emitExpr S em locals (pair_car (pair_cdr pr))) (\<lambda>(v, l1).
             emit_then (emit_bindings_paired S em (ensure_local name l1) rest)
               (\<lambda>(stores, l2).
             Value (Some ((name, v) # stores, l2))))
         | _ \<Rightarrow> Value None)"
| "emit_bindings_paired S em locals b = Value None"
| "emit_bindings_flat S em locals Nil = Value (Some ([], locals))"
| "emit_bindings_flat S em locals (Pair bname next) =
        (case bname of
           Sym name \<Rightarrow>
             if next = Nil then Value None
             else
               emit_then (emitExpr S em locals (pair_car next)) (\<lambda>(v, l1).
               emit_then (emit_bindings_flat S em (ensure_local name l1) (pair_cdr next))
                 (\<lambda>(stores, l2).
               Value (Some ((name, v) # stores, l2))))
         | _ \<Rightarrow> Value None)"
| "emit_bindings_flat S em locals b = Value None"
  by pat_completeness
    (simp_all only: sum.inject sum.distinct prod.inject val.inject val.distinct simp_thms)

termination
  apply (relation "measure (\<lambda>x. case x of
      Inl (Inl (S, em, l, v)) \<Rightarrow> size v
    | Inl (Inr (Inl (S, em, l, v))) \<Rightarrow> size v
    | Inl (Inr (Inr (S, em, l, v))) \<Rightarrow> size v
    | Inr (Inl (S, em, l, v)) \<Rightarrow> size v
    | Inr (Inr (Inl (S, em, l, v))) \<Rightarrow> size v
    | Inr (Inr (Inr (S, em, l, v))) \<Rightarrow> size v)")
  apply (simp_all add: size_pair_car_add size_pair_cdr_add size_pair_car_cdr_add size_pair_cdr_cdr_add trans_less_add1 trans_less_add2 size_pair_car size_pair_cdr size_pair_car_cdr size_pair_cdr_cdr)
  done

subsection \<open>Which emitted code LLVM defines\<close>

text \<open>
  The emitter never runs the IR verifier, and some of what it builds is not valid IR:
  \<open>compileWhile\<close> returns the last value of the loop body, an instruction of the body
  block that does not dominate anything after the loop, and \<open>build_func_ir\<close> appends
  the \<open>ret\<close> to the entry block when the last value is a constant, also when that block
  already ends in a branch. \<open>func_ir_valid\<close> holds for the code without such a use; the
  model gives no meaning to the rest.

  \<open>result_value\<close> is the \<open>llvm::Value\<close> that the emission of a form returned:
  \<open>compileLet\<close> and \<open>compileWhile\<close> return the last value of their body, or the
  constant 0.0.
\<close>

fun result_value :: "ir \<Rightarrow> ir"
  and last_value :: "ir list \<Rightarrow> ir" where
  "result_value (LetStores stores bs) = last_value bs"
| "result_value (WhileLoop c bs) = last_value bs"
| "result_value v = v"
| "last_value [] = ConstantFP 0"
| "last_value [v] = result_value v"
| "last_value (v # w # ws) = last_value (w # ws)"

fun is_constant :: "ir \<Rightarrow> bool" where
  "is_constant (ConstantFP c) = True"
| "is_constant v = False"

text \<open>Whether the returned value is an instruction inside the body of a loop.\<close>

fun in_loop_body :: "ir \<Rightarrow> bool"
  and last_in_loop_body :: "ir list \<Rightarrow> bool" where
  "in_loop_body (WhileLoop c bs) = True"
| "in_loop_body (LetStores stores bs) = last_in_loop_body bs"
| "in_loop_body v = False"
| "last_in_loop_body [] = False"
| "last_in_loop_body [v] = in_loop_body v"
| "last_in_loop_body (v # w # ws) = last_in_loop_body (w # ws)"

definition usable :: "ir \<Rightarrow> bool" where
  "usable v = (is_constant (result_value v) \<or> \<not> in_loop_body v)"

fun ir_ok :: "ir \<Rightarrow> bool" where
  "ir_ok (FAdd a b) = (ir_ok a \<and> usable a \<and> ir_ok b \<and> usable b)"
| "ir_ok (FSub a b) = (ir_ok a \<and> usable a \<and> ir_ok b \<and> usable b)"
| "ir_ok (FMul a b) = (ir_ok a \<and> usable a \<and> ir_ok b \<and> usable b)"
| "ir_ok (FDiv a b) = (ir_ok a \<and> usable a \<and> ir_ok b \<and> usable b)"
| "ir_ok (SelectFCmp p a b) = (ir_ok a \<and> usable a \<and> ir_ok b \<and> usable b)"
| "ir_ok (CondPhi cs) =
     list_all (\<lambda>(t, bs). ir_ok t \<and> usable t \<and> list_all ir_ok bs
                          \<and> (bs \<noteq> [] \<longrightarrow> usable (last bs))) cs"
| "ir_ok (WhileLoop c bs) = (ir_ok c \<and> usable c \<and> list_all ir_ok bs)"
| "ir_ok (LetStores stores bs) =
     (list_all (\<lambda>(name, v). ir_ok v \<and> usable v) stores \<and> list_all ir_ok bs)"
| "ir_ok (CallNative a args) = list_all (\<lambda>v. ir_ok v \<and> usable v) args"
| "ir_ok (CallBridge a args) = list_all (\<lambda>v. ir_ok v \<and> usable v) args"
| "ir_ok v = True"

fun has_branch :: "ir \<Rightarrow> bool" where
  "has_branch (CondPhi cs) = True"
| "has_branch (WhileLoop c bs) = True"
| "has_branch (FAdd a b) = (has_branch a \<or> has_branch b)"
| "has_branch (FSub a b) = (has_branch a \<or> has_branch b)"
| "has_branch (FMul a b) = (has_branch a \<or> has_branch b)"
| "has_branch (FDiv a b) = (has_branch a \<or> has_branch b)"
| "has_branch (SelectFCmp p a b) = (has_branch a \<or> has_branch b)"
| "has_branch (LetStores stores bs) =
     (list_ex (\<lambda>(name, v). has_branch v) stores \<or> list_ex has_branch bs)"
| "has_branch (CallNative a args) = list_ex has_branch args"
| "has_branch (CallBridge a args) = list_ex has_branch args"
| "has_branch v = False"

definition func_ir_valid :: "ir list \<Rightarrow> bool" where
  "func_ir_valid stmts =
     (list_all ir_ok stmts
      \<and> (stmts \<noteq> [] \<longrightarrow> usable (last stmts))
      \<and> (list_ex has_branch stmts \<longrightarrow> \<not> is_constant (last_value stmts)))"

subsection \<open>build_func_ir and compileFuncData (jit.cpp)\<close>

text \<open>
  \<open>build_func_ir\<close>: the statements of the function body, whose last value is returned
  (0.0 for an empty body).
\<close>

definition build_func_ir :: "State \<Rightarrow> FuncData \<Rightarrow> ir list option outcome" where
  "build_func_ir S fd =
     (case param_index_of (params fd) 0 Map.empty of
        None \<Rightarrow> Undefined
      | Some pidx \<Rightarrow>
          emit_then
            (emit_body S \<lparr>func_closure_env = closure_env fd, param_index = pidx\<rparr> [] (body fd))
            (\<lambda>(stmts, locals). Value (Some stmts)))"

text \<open>
  \<open>compileFunctionFromBuilder\<close>: the native entry is the code itself. LLVM is taken to
  compile every valid function; an invalid one is \<open>Undefined\<close>.
\<close>

definition compileFunctionFromBuilder :: "ir list option outcome \<Rightarrow> ir list option outcome" where
  "compileFunctionFromBuilder f =
     emit_then f (\<lambda>stmts. if func_ir_valid stmts then Value (Some stmts) else Undefined)"

text \<open>
  \<open>collect_called_funcs\<close>: the user functions that the symbols in operator position are
  bound to in the closure chain. \<open>None\<close> where the walk calls \<open>get_pair()\<close> on the
  non-nil tail of an improper list.
\<close>

definition called_func :: "State \<Rightarrow> nat option \<Rightarrow> val \<Rightarrow> nat list option outcome" where
  "called_func S closure car =
     (case car of
        Sym name \<Rightarrow>
          (case env_lookup S closure name of
             Value (Some (e, Func a)) \<Rightarrow> Value (Some [a])
           | Value _ \<Rightarrow> Value (Some [])
           | r \<Rightarrow> pass r)
      | _ \<Rightarrow> Value (Some []))"

fun collect_called_funcs :: "State \<Rightarrow> nat option \<Rightarrow> val \<Rightarrow> nat list option outcome"
  and collect_walk :: "State \<Rightarrow> nat option \<Rightarrow> val \<Rightarrow> nat list option outcome" where
  "collect_called_funcs S closure (Pair car cdr) =
     emit_then (called_func S closure car) (\<lambda>here.
     emit_then (collect_walk S closure (Pair car cdr)) (\<lambda>below.
     Value (Some (here @ below))))"
| "collect_called_funcs S closure expr = Value (Some [])"
| "collect_walk S closure (Pair car cdr) =
     emit_then (collect_called_funcs S closure car) (\<lambda>a.
     emit_then (collect_walk S closure cdr) (\<lambda>b.
     Value (Some (a @ b))))"
| "collect_walk S closure Nil = Value (Some [])"
| "collect_walk S closure w = Undefined"

text \<open>Sequencing: the second step runs when the first returns a value.\<close>

definition and_then :: "'a result \<Rightarrow> ('a \<Rightarrow> State \<Rightarrow> 'b result) \<Rightarrow> 'b result" where
  "and_then m f = (case m of (Value x, S) \<Rightarrow> f x S | (r, S) \<Rightarrow> (pass r, S))"

text \<open>
  \<open>compileFuncData\<close>. The loop over \<open>to_compile\<close> calls \<open>compileFuncData\<close> again, so
  the recursion is counted; two functions that call each other make it run forever.
\<close>

fun compile_callees ::
  "(nat \<Rightarrow> State \<Rightarrow> ir list option result) \<Rightarrow> nat \<Rightarrow> nat list \<Rightarrow> State \<Rightarrow> unit result" where
  "compile_callees rec func [] S = (Value (), S)"
| "compile_callees rec func (a # as) S =
     (case heap_get (funcs S) a of
        None \<Rightarrow> (Undefined, S)
      | Some fd \<Rightarrow>
          if compiled_code fd = None \<and> \<not> jit_failed fd \<and> a \<noteq> func
          then and_then (rec a S) (\<lambda>res. compile_callees rec func as)
          else compile_callees rec func as S)"

definition set_func :: "nat \<Rightarrow> (FuncData \<Rightarrow> FuncData) \<Rightarrow> State \<Rightarrow> State" where
  "set_func a f S = S\<lparr>funcs := (funcs S)[a := f (funcs S ! a)]\<rparr>"

fun compileFuncData :: "nat \<Rightarrow> nat \<Rightarrow> State \<Rightarrow> ir list option result" where
  "compileFuncData 0 func S = (OutOfFuel, S)"
| "compileFuncData (Suc k) func S =
     (case heap_get (funcs S) func of
        None \<Rightarrow> (Undefined, S)
      | Some fd \<Rightarrow>
          (case collect_called_funcs S (closure_env fd) (body fd) of
             Value (Some to_compile) \<Rightarrow>
               and_then (compile_callees (\<lambda>a s. compileFuncData k a s) func to_compile S)
                 (\<lambda>u S1.
                    (case compileFunctionFromBuilder (build_func_ir S1 fd) of
                       Value (Some ptr) \<Rightarrow>
                         (Value (Some ptr), set_func func (\<lambda>f. f\<lparr>compiled_code := Some ptr\<rparr>) S1)
                     | Value None \<Rightarrow>
                         (Value None, set_func func (\<lambda>f. f\<lparr>jit_failed := True\<rparr>) S1)
                     | r \<Rightarrow> (pass r, S1)))
           | r \<Rightarrow> (pass r, S)))"

section \<open>Running the emitted code\<close>

text \<open>
  The meaning of the emitted code. \<open>args\<close> is the argument buffer, the store holds the
  stack slots that have been written, \<open>nv\<close> is a direct call of another function's native
  entry and \<open>br\<close> the bridge \<open>VDLISP__call_from_jit\<close>. Reading an argument beyond the
  buffer or a slot that was never written is \<open>Undefined\<close>. A branch is taken when
  \<open>fcmp one\<close> of the test and 0.0 holds.
\<close>

text \<open>A loop that tests, runs its body and tests again, with a bound on the iterations.\<close>

fun loop_while ::
  "nat \<Rightarrow> ('a \<Rightarrow> State \<Rightarrow> (bool \<times> 'a) result) \<Rightarrow> ('a \<Rightarrow> State \<Rightarrow> 'a result)
     \<Rightarrow> 'a \<Rightarrow> State \<Rightarrow> 'a result" where
  "loop_while 0 test step x S = (OutOfFuel, S)"
| "loop_while (Suc k) test step x S =
     and_then (test x S) (\<lambda>(continue, x1) S1.
       if continue then and_then (step x1 S1) (\<lambda>x2 S2. loop_while k test step x2 S2)
       else (Value x1, S1))"

definition jit_lookup_number :: "State \<Rightarrow> nat option \<Rightarrow> string \<Rightarrow> double outcome" where
  "jit_lookup_number S env_ptr name =
     (let e = (case env_ptr of
                 None \<Rightarrow> if jit_active_state S then global S else None
               | Some a \<Rightarrow> Some a)
      in case e of
           None \<Rightarrow> Value fp_qnan
         | Some a \<Rightarrow>
             (case env_lookup S (Some a) name of
                Value (Some (b, Num d)) \<Rightarrow> Value d
              | Value _ \<Rightarrow> Value fp_qnan
              | r \<Rightarrow> pass r))"

type_synonym store = "string \<rightharpoonup> double"
type_synonym native = "nat \<Rightarrow> double list \<Rightarrow> State \<Rightarrow> double result"

function (sequential) exec_ir ::
    "native \<Rightarrow> native \<Rightarrow> nat \<Rightarrow> double list \<Rightarrow> ir \<Rightarrow> store \<Rightarrow> State \<Rightarrow> (double \<times> store) result"
  and exec_operands ::
    "native \<Rightarrow> native \<Rightarrow> nat \<Rightarrow> double list \<Rightarrow> ir list \<Rightarrow> store \<Rightarrow> State
       \<Rightarrow> (double list \<times> store) result"
  and exec_stmts ::
    "native \<Rightarrow> native \<Rightarrow> nat \<Rightarrow> double list \<Rightarrow> ir list \<Rightarrow> double \<Rightarrow> store \<Rightarrow> State
       \<Rightarrow> (double \<times> store) result"
  and exec_clauses ::
    "native \<Rightarrow> native \<Rightarrow> nat \<Rightarrow> double list \<Rightarrow> (ir \<times> ir list) list \<Rightarrow> store \<Rightarrow> State
       \<Rightarrow> (double \<times> store) result"
  and exec_stores ::
    "native \<Rightarrow> native \<Rightarrow> nat \<Rightarrow> double list \<Rightarrow> (string \<times> ir) list \<Rightarrow> store \<Rightarrow> State
       \<Rightarrow> store result"
  where
  "exec_ir nv br k args (ConstantFP c) st S = (Value (c, st), S)"
| "exec_ir nv br k args (LoadArg i) st S =
     (if i < length args then (Value (args ! i, st), S) else (Undefined, S))"
| "exec_ir nv br k args (LoadLocal name) st S =
     (case st name of Some d \<Rightarrow> (Value (d, st), S) | None \<Rightarrow> (Undefined, S))"
| "exec_ir nv br k args (CallLookupNumber env_ptr name) st S =
     (case jit_lookup_number S env_ptr name of
        Value d \<Rightarrow> (Value (d, st), S)
      | r \<Rightarrow> (pass r, S))"
| "exec_ir nv br k args (FAdd a b) st S =
     and_then (exec_ir nv br k args a st S) (\<lambda>(x, st1) S1.
     and_then (exec_ir nv br k args b st1 S1) (\<lambda>(y, st2) S2.
     (Value (fp_add x y, st2), S2)))"
| "exec_ir nv br k args (FSub a b) st S =
     and_then (exec_ir nv br k args a st S) (\<lambda>(x, st1) S1.
     and_then (exec_ir nv br k args b st1 S1) (\<lambda>(y, st2) S2.
     (Value (fp_sub x y, st2), S2)))"
| "exec_ir nv br k args (FMul a b) st S =
     and_then (exec_ir nv br k args a st S) (\<lambda>(x, st1) S1.
     and_then (exec_ir nv br k args b st1 S1) (\<lambda>(y, st2) S2.
     (Value (fp_mul x y, st2), S2)))"
| "exec_ir nv br k args (FDiv a b) st S =
     and_then (exec_ir nv br k args a st S) (\<lambda>(x, st1) S1.
     and_then (exec_ir nv br k args b st1 S1) (\<lambda>(y, st2) S2.
     (Value (fp_div x y, st2), S2)))"
| "exec_ir nv br k args (SelectFCmp p a b) st S =
     and_then (exec_ir nv br k args a st S) (\<lambda>(x, st1) S1.
     and_then (exec_ir nv br k args b st1 S1) (\<lambda>(y, st2) S2.
     (Value (select_fcmp p x y, st2), S2)))"
| "exec_ir nv br k args (CondPhi cs) st S = exec_clauses nv br k args cs st S"
| "exec_ir nv br k args (WhileLoop c bs) st S =
     loop_while k
       (\<lambda>(lastv, st0) S0.
          and_then (exec_ir nv br k args c st0 S0) (\<lambda>(condv, st1) S1.
          (Value (fp_one condv 0, (lastv, st1)), S1)))
       (\<lambda>(lastv, st0) S0. exec_stmts nv br k args bs 0 st0 S0)
       (case last_value bs of ConstantFP d \<Rightarrow> d | _ \<Rightarrow> 0, st) S"
| "exec_ir nv br k args (LetStores stores bs) st S =
     and_then (exec_stores nv br k args stores st S) (\<lambda>st1 S1.
     exec_stmts nv br k args bs 0 st1 S1)"
| "exec_ir nv br k args (CallNative a as) st S =
     and_then (exec_operands nv br k args as st S) (\<lambda>(vals, st1) S1.
     and_then (nv a vals S1) (\<lambda>res S2. (Value (res, st1), S2)))"
| "exec_ir nv br k args (CallBridge a as) st S =
     and_then (exec_operands nv br k args as st S) (\<lambda>(vals, st1) S1.
     and_then (br a vals S1) (\<lambda>res S2. (Value (res, st1), S2)))"
| "exec_operands nv br k args [] st S = (Value ([], st), S)"
| "exec_operands nv br k args (v # vs) st S =
     and_then (exec_ir nv br k args v st S) (\<lambda>(x, st1) S1.
     and_then (exec_operands nv br k args vs st1 S1) (\<lambda>(xs, st2) S2.
     (Value (x # xs, st2), S2)))"
| "exec_stmts nv br k args [] lastv st S = (Value (lastv, st), S)"
| "exec_stmts nv br k args (v # vs) lastv st S =
     and_then (exec_ir nv br k args v st S) (\<lambda>(x, st1) S1.
     exec_stmts nv br k args vs x st1 S1)"
| "exec_clauses nv br k args [] st S = (Value (0, st), S)"
| "exec_clauses nv br k args ((t, bs) # cs) st S =
     and_then (exec_ir nv br k args t st S) (\<lambda>(condv, st1) S1.
       if fp_one condv 0 then exec_stmts nv br k args bs 0 st1 S1
       else exec_clauses nv br k args cs st1 S1)"
| "exec_stores nv br k args [] st S = (Value st, S)"
| "exec_stores nv br k args ((name, v) # stores) st S =
     and_then (exec_ir nv br k args v st S) (\<lambda>(x, st1) S1.
     exec_stores nv br k args stores (st1(name \<mapsto> x)) S1)"
  by pat_completeness
    (simp_all only: sum.inject sum.distinct prod.inject ir.inject ir.distinct list.inject
       list.distinct simp_thms)

termination
  apply (relation "measure (\<lambda>x. case x of
      Inl (Inl (nv, br, k, args, v, st, S)) \<Rightarrow> size v
    | Inl (Inr (nv, br, k, args, vs, st, S)) \<Rightarrow> size_list size vs
    | Inr (Inl (nv, br, k, args, vs, lastv, st, S)) \<Rightarrow> size_list size vs
    | Inr (Inr (Inl (nv, br, k, args, cs, st, S))) \<Rightarrow> size_list (size_prod size (size_list size)) cs
    | Inr (Inr (Inr (nv, br, k, args, stores, st, S))) \<Rightarrow> size_list (size_prod (\<lambda>x. 0) size) stores)")
  apply simp_all
  done

section \<open>The interpreter (vdlisp.cpp, core.cpp, require.hpp)\<close>

text \<open>
  \<open>eval\<close>, \<open>call\<close> and the native entries call each other. Every function of this
  section takes the functions it calls back into as parameters: \<open>ev\<close> for \<open>State::eval\<close>,
  \<open>cl\<close> for \<open>State::call\<close>, \<open>nv\<close> for the native entry of a compiled function. The
  recursion is closed at the end of the section.
\<close>

type_synonym evaluator = "val \<Rightarrow> nat option \<Rightarrow> State \<Rightarrow> val result"
type_synonym caller = "val \<Rightarrow> val \<Rightarrow> State \<Rightarrow> val result"

definition returns :: "'a outcome \<Rightarrow> State \<Rightarrow> 'a result" where
  "returns r S = (r, S)"

text \<open>\<open>eval_args\<close>: the values of the elements of a list, left to right.\<close>

fun eval_args :: "evaluator \<Rightarrow> val \<Rightarrow> nat option \<Rightarrow> State \<Rightarrow> val result" where
  "eval_args ev Nil env S = (Value Nil, S)"
| "eval_args ev (Pair acar acdr) env S =
     and_then (ev acar env S) (\<lambda>av S1.
     and_then (eval_args ev acdr env S1) (\<lambda>rest S2.
     (Value (Pair av rest), S2)))"
| "eval_args ev a env S = (Undefined, S)"

text \<open>\<open>State::do_list\<close>; the second argument is \<open>res\<close>, the value of the last expression.\<close>

fun do_list_from :: "evaluator \<Rightarrow> val \<Rightarrow> val \<Rightarrow> nat option \<Rightarrow> State \<Rightarrow> val result" where
  "do_list_from ev res Nil env S = (Value res, S)"
| "do_list_from ev res (Pair car cdr) env S =
     and_then (ev car env S) (\<lambda>v S1. do_list_from ev v cdr env S1)"
| "do_list_from ev res walk env S = (Undefined, S)"

definition State_do_list :: "evaluator \<Rightarrow> val \<Rightarrow> nat option \<Rightarrow> State \<Rightarrow> val result" where
  "State_do_list ev bdy env S = do_list_from ev Nil bdy env S"

subsection \<open>The reader's entry points\<close>

definition record_locs :: "(val \<times> SourceLoc) list \<Rightarrow> State \<Rightarrow> State" where
  "record_locs locs S =
     fold (\<lambda>(v, l) S'. set_source_loc v (loc_file l) (loc_line l) (loc_col l) S') locs S"

definition State_parse :: "World \<Rightarrow> string \<Rightarrow> string \<Rightarrow> State \<Rightarrow> val result" where
  "State_parse W src name S =
     (let S1 = S\<lparr>sources := (sources S)(name \<mapsto> src)\<rparr>;
          (r, locs) = read_one W src name
      in (case r of Inl e \<Rightarrow> Throw e | Inr v \<Rightarrow> Value v, record_locs locs S1))"

definition State_parse_all :: "World \<Rightarrow> string \<Rightarrow> string \<Rightarrow> State \<Rightarrow> val result" where
  "State_parse_all W src name S =
     (let S1 = S\<lparr>sources := (sources S)(name \<mapsto> src)\<rparr>;
          (r, locs) = read_all W src name
      in (case r of Inl e \<Rightarrow> Throw e | Inr v \<Rightarrow> Value v, record_locs locs S1))"

subsection \<open>Builtins (core.cpp)\<close>

definition arith_binary ::
  "State \<Rightarrow> val \<Rightarrow> (double \<Rightarrow> double \<Rightarrow> error + double) \<Rightarrow> string \<Rightarrow> val outcome" where
  "arith_binary S args op name =
     (if args = Nil \<or> pair_cdr args = Nil \<or> pair_cdr (pair_cdr args) \<noteq> Nil
      then Throw (RuntimeError (name @ '' requires exactly two arguments''))
      else
        (case require_number S (pair_car args) name of
           Inl e \<Rightarrow> Throw e
         | Inr a \<Rightarrow>
             (case require_number S (pair_car (pair_cdr args)) name of
                Inl e \<Rightarrow> Throw e
              | Inr b \<Rightarrow>
                  (case op a b of
                     Inl e \<Rightarrow> Throw e
                   | Inr r \<Rightarrow> Value (make_number r)))))"

definition compare_binary ::
  "State \<Rightarrow> val \<Rightarrow> (double \<Rightarrow> double \<Rightarrow> bool) \<Rightarrow> string \<Rightarrow> val outcome" where
  "compare_binary S args cmp name =
     (if args = Nil \<or> pair_cdr args = Nil \<or> pair_cdr (pair_cdr args) \<noteq> Nil
      then Throw (RuntimeError (name @ '' requires exactly two arguments''))
      else
        (case require_number S (pair_car args) name of
           Inl e \<Rightarrow> Throw e
         | Inr a \<Rightarrow>
             (case require_number S (pair_car (pair_cdr args)) name of
                Inl e \<Rightarrow> Throw e
              | Inr b \<Rightarrow> if cmp a b then get_bound S ''#t'' (global S) else Value Nil)))"

definition builtin_add :: "State \<Rightarrow> val \<Rightarrow> val outcome" where
  "builtin_add S args = arith_binary S args (\<lambda>a b. Inr (fp_add a b)) ''+''"

definition builtin_sub :: "State \<Rightarrow> val \<Rightarrow> val outcome" where
  "builtin_sub S args = arith_binary S args (\<lambda>a b. Inr (fp_sub a b)) ''-''"

definition builtin_mul :: "State \<Rightarrow> val \<Rightarrow> val outcome" where
  "builtin_mul S args = arith_binary S args (\<lambda>a b. Inr (fp_mul a b)) ''*''"

definition builtin_div :: "State \<Rightarrow> val \<Rightarrow> val outcome" where
  "builtin_div S args =
     arith_binary S args
       (\<lambda>a b. if fp_eq b 0 then Inl (RuntimeError ''division by zero'') else Inr (fp_div a b))
       ''/''"

definition builtin_cmp_lt :: "State \<Rightarrow> val \<Rightarrow> val outcome" where
  "builtin_cmp_lt S args = compare_binary S args fp_lt ''<''"

definition builtin_cmp_gt :: "State \<Rightarrow> val \<Rightarrow> val outcome" where
  "builtin_cmp_gt S args = compare_binary S args fp_gt ''>''"

definition builtin_cmp_le :: "State \<Rightarrow> val \<Rightarrow> val outcome" where
  "builtin_cmp_le S args = compare_binary S args fp_le ''<=''"

definition builtin_cmp_ge :: "State \<Rightarrow> val \<Rightarrow> val outcome" where
  "builtin_cmp_ge S args = compare_binary S args fp_ge ''>=''"

text \<open>The builtin \<open>=\<close>.\<close>

definition builtin_eq :: "State \<Rightarrow> val \<Rightarrow> val outcome" where
  "builtin_eq S args =
     (if args = Nil \<or> pair_cdr args = Nil \<or> pair_cdr (pair_cdr args) \<noteq> Nil
      then Throw (RuntimeError ''= requires exactly two arguments'')
      else if value_equal (pair_car args) (pair_car (pair_cdr args))
           then get_bound S ''#t'' (global S) else Value Nil)"

text \<open>\<open>print\<close>: the text written to \<open>std::cout\<close> and the last element.\<close>

fun print_elems :: "World \<Rightarrow> State \<Rightarrow> bool \<Rightarrow> val \<Rightarrow> val \<Rightarrow> string \<times> val" where
  "print_elems W S first lastv (Pair el rest) =
     (let (str, l) = print_elems W S False el rest
      in ((if first then [] else '' '') @ to_string W S el @ str, l))"
| "print_elems W S first lastv Nil = ([], lastv)"
| "print_elems W S first lastv cur =
     ((if first then [] else '' '') @ to_string W S Nil, Nil)"

definition builtin_print :: "World \<Rightarrow> val \<Rightarrow> State \<Rightarrow> val result" where
  "builtin_print W args S =
     (let (str, l) = print_elems W S True Nil args
      in (Value l, S\<lparr>out := out S @ str @ [CHR 0x0A]\<rparr>))"

definition builtin_type :: "State \<Rightarrow> val \<Rightarrow> val outcome" where
  "builtin_type S args = Value (Sym (type_name S (pair_car args)))"

definition builtin_parse :: "World \<Rightarrow> val \<Rightarrow> State \<Rightarrow> val result" where
  "builtin_parse W args S =
     (case pair_car args of
        Str s \<Rightarrow> State_parse W s ''(string)'' S
      | _ \<Rightarrow> (Throw (RuntimeError ''parse requires a string''), S))"

definition builtin_error :: "World \<Rightarrow> State \<Rightarrow> val \<Rightarrow> val outcome" where
  "builtin_error W S args =
     Throw (RuntimeError
       (if pair_car args \<noteq> Nil then to_string W S (pair_car args) else ''error''))"

definition builtin_cons :: "val \<Rightarrow> val outcome" where
  "builtin_cons args = Value (Pair (pair_car args) (pair_car (pair_cdr args)))"

definition builtin_car :: "val \<Rightarrow> val outcome" where
  "builtin_car args =
     (case pair_car args of
        Nil \<Rightarrow> Value Nil
      | Pair a d \<Rightarrow> Value a
      | _ \<Rightarrow> Throw (RuntimeError ''car expects a pair''))"

definition builtin_cdr :: "val \<Rightarrow> val outcome" where
  "builtin_cdr args =
     (case pair_car args of
        Nil \<Rightarrow> Value Nil
      | Pair a d \<Rightarrow> Value d
      | _ \<Rightarrow> Throw (RuntimeError ''cdr expects a pair''))"

text \<open>
  \<open>setcar\<close> and \<open>setcdr\<close> write into a pair that other values share; values that are
  trees cannot express the write, so on a pair the builtins are \<open>Undefined\<close>.
\<close>

definition builtin_setcar :: "val \<Rightarrow> val outcome" where
  "builtin_setcar args =
     (case pair_car args of
        Pair a d \<Rightarrow> Undefined
      | _ \<Rightarrow> Throw (RuntimeError ''setcar expects a pair''))"

definition builtin_setcdr :: "val \<Rightarrow> val outcome" where
  "builtin_setcdr args =
     (case pair_car args of
        Pair a d \<Rightarrow> Undefined
      | _ \<Rightarrow> Throw (RuntimeError ''setcdr expects a pair''))"

text \<open>
  \<open>shutdown_and_purge_pools\<close>, as far as the tables of the state go; the release of
  closures and environments is memory management.
\<close>

definition shutdown_and_purge_pools :: "State \<Rightarrow> State" where
  "shutdown_and_purge_pools S =
     S\<lparr>global := None, loaded_modules := Map.empty, sources := Map.empty,
       src_call_chain_map := Map.empty, src_map := Map.empty, current_expr := Nil\<rparr>"

definition builtin_exit :: "val \<Rightarrow> State \<Rightarrow> val result" where
  "builtin_exit args S =
     (if pair_car args \<noteq> Nil then
        (case require_number S (pair_car args) ''exit'' of
           Inl e \<Rightarrow> (Throw e, S)
         | Inr d \<Rightarrow>
             (case fp_trunc_int d of
                None \<Rightarrow> (Undefined, S)
              | Some code \<Rightarrow> (Exited code, shutdown_and_purge_pools S)))
      else (Exited 0, shutdown_and_purge_pools S))"

subsection \<open>require (require.hpp)\<close>

definition dir_prefix :: "string \<Rightarrow> string option" where
  \<comment> \<open>\<open>p.substr(0, p.find_last_of('/') + 1)\<close>, when \<open>p\<close> has a slash\<close>
  "dir_prefix p =
     (if CHR ''/'' \<in> set p then Some (rev (dropWhile (\<lambda>c. c \<noteq> CHR ''/'') (rev p))) else None)"

definition require_candidates :: "State \<Rightarrow> string \<Rightarrow> string list" where
  "require_candidates S name =
     (if name \<noteq> [] \<and> hd name \<noteq> CHR ''/'' then
        (case get_source_loc S (current_expr S) of
           Some loc \<Rightarrow>
             if loc_file loc \<noteq> [] then
               (case dir_prefix (loc_file loc) of Some d \<Rightarrow> [d @ name] | None \<Rightarrow> [])
             else []
         | None \<Rightarrow> []) @ [name]
      else [name])"

definition require_key :: "World \<Rightarrow> string \<Rightarrow> string" where
  "require_key W cand =
     (if fs_exists W cand then
        (case fs_canonical W cand of Some can \<Rightarrow> can | None \<Rightarrow> fs_absolute W cand)
      else cand)"

definition require_open :: "World \<Rightarrow> string \<Rightarrow> string \<Rightarrow> string option" where
  \<comment> \<open>the contents of the file when the stream opens\<close>
  "require_open W key cand =
     (if key \<noteq> [] \<and> fs_exists W key then fs_read W key else fs_read W cand)"

fun join_tried :: "string list \<Rightarrow> string" where
  "join_tried [] = []"
| "join_tried [t] = t"
| "join_tried (t # u # us) = t @ '', '' @ join_tried (u # us)"

text \<open>The part of \<open>require\<close> that runs once the file has been opened.\<close>

definition require_load :: "World \<Rightarrow> evaluator \<Rightarrow> string \<Rightarrow> string \<Rightarrow> State \<Rightarrow> val result" where
  "require_load W ev key contents S =
     and_then (State_parse_all W contents key (S\<lparr>loaded_modules := (loaded_modules S)(key \<mapsto> Nil)\<rparr>))
       (\<lambda>e S1.
          and_then (if e \<noteq> Nil then State_do_list ev e (global S1) S1 else (Value Nil, S1))
            (\<lambda>r S2. (Value r, S2\<lparr>loaded_modules := (loaded_modules S2)(key \<mapsto> r)\<rparr>)))"

fun require_loop ::
  "World \<Rightarrow> evaluator \<Rightarrow> string \<Rightarrow> string list \<Rightarrow> string list \<Rightarrow> State \<Rightarrow> val result" where
  "require_loop W ev name tried [] S =
     (Throw (RuntimeError
        (''could not open file: '' @ name @ '' (tried: '' @ join_tried tried @ '')'')), S)"
| "require_loop W ev name tried (cand # rest) S =
     (let key = require_key W cand
      in case loaded_modules S key of
           Some v \<Rightarrow> (Value v, S)
         | None \<Rightarrow>
             (case require_open W key cand of
                None \<Rightarrow> require_loop W ev name (tried @ [key]) rest S
              | Some contents \<Rightarrow> require_load W ev key contents S))"

definition builtin_require :: "World \<Rightarrow> evaluator \<Rightarrow> val \<Rightarrow> State \<Rightarrow> val result" where
  "builtin_require W ev args S =
     (case pair_car args of
        Str name \<Rightarrow> require_loop W ev name [] (require_candidates S name) S
      | _ \<Rightarrow> (Throw (RuntimeError ''require requires a string''), S))"

text \<open>The builtin registered under a name.\<close>

definition call_cfunc :: "World \<Rightarrow> evaluator \<Rightarrow> string \<Rightarrow> val \<Rightarrow> State \<Rightarrow> val result" where
  "call_cfunc W ev name args S =
     (if name = ''print'' then builtin_print W args S
      else if name = ''+'' then (builtin_add S args, S)
      else if name = ''-'' then (builtin_sub S args, S)
      else if name = ''*'' then (builtin_mul S args, S)
      else if name = ''/'' then (builtin_div S args, S)
      else if name = ''<'' then (builtin_cmp_lt S args, S)
      else if name = ''>'' then (builtin_cmp_gt S args, S)
      else if name = ''<='' then (builtin_cmp_le S args, S)
      else if name = ''>='' then (builtin_cmp_ge S args, S)
      else if name = ''list'' then (Value args, S)
      else if name = ''type'' then (builtin_type S args, S)
      else if name = ''parse'' then builtin_parse W args S
      else if name = ''error'' then (builtin_error W S args, S)
      else if name = ''cons'' then (builtin_cons args, S)
      else if name = ''car'' then (builtin_car args, S)
      else if name = ''cdr'' then (builtin_cdr args, S)
      else if name = ''setcar'' then (builtin_setcar args, S)
      else if name = ''setcdr'' then (builtin_setcdr args, S)
      else if name = ''='' then (builtin_eq S args, S)
      else if name = ''exit'' then builtin_exit args S
      else if name = ''require'' then builtin_require W ev args S
      else (Undefined, S))"

subsection \<open>Special forms (core.cpp)\<close>

definition prim_quote :: "val \<Rightarrow> val outcome" where
  "prim_quote args = Value (pair_car args)"

definition prim_unquote :: "evaluator \<Rightarrow> val \<Rightarrow> nat option \<Rightarrow> State \<Rightarrow> val result" where
  "prim_unquote ev args env S =
     (if pair_car args \<noteq> Nil then ev (pair_car args) env S else (Value Nil, S))"

text \<open>
  \<open>qq_expand\<close>. In \<open>make_pair(qq_expand(car, depth), qq_expand(cdr, depth))\<close> the C++
  standard leaves the order of the two calls open; the model takes the car first.
\<close>

fun qq_expand :: "evaluator \<Rightarrow> nat option \<Rightarrow> val \<Rightarrow> int \<Rightarrow> State \<Rightarrow> val result" where
  "qq_expand ev env (Pair car cdr) depth S =
     (if is_symbol car ''unquote'' then
        (if depth = 1 then
           (if cdr \<noteq> Nil then ev (pair_car cdr) env S else (Value Nil, S))
         else and_then (qq_expand ev env cdr (depth - 1) S) (\<lambda>d S1. (Value (Pair car d), S1)))
      else if is_symbol car ''quasiquote'' then
        and_then (qq_expand ev env cdr (depth + 1) S) (\<lambda>d S1. (Value (Pair car d), S1))
      else
        and_then (qq_expand ev env car depth S) (\<lambda>a S1.
        and_then (qq_expand ev env cdr depth S1) (\<lambda>d S2.
        (Value (Pair a d), S2))))"
| "qq_expand ev env expr depth S = (Value expr, S)"

definition prim_quasiquote :: "evaluator \<Rightarrow> val \<Rightarrow> nat option \<Rightarrow> State \<Rightarrow> val result" where
  "prim_quasiquote ev args env S = qq_expand ev env (pair_car args) 1 S"

definition prim_set :: "evaluator \<Rightarrow> val \<Rightarrow> nat option \<Rightarrow> State \<Rightarrow> val result" where
  "prim_set ev args env S =
     and_then (ev (pair_car (pair_cdr args)) env S) (\<lambda>v S1.
     State_set (pair_car args) v env S1)"

definition make_function :: "val \<Rightarrow> val \<Rightarrow> nat option \<Rightarrow> State \<Rightarrow> val result" where
  "make_function ps bdy env S =
     (Value (Func (length (funcs S))),
      S\<lparr>funcs := funcs S @
           [\<lparr>params = ps, body = bdy, closure_env = env, call_count = 0,
             num_call_count = 0, compiled_code = None, jit_failed = False\<rparr>]\<rparr>)"

definition make_macro :: "val \<Rightarrow> val \<Rightarrow> nat option \<Rightarrow> State \<Rightarrow> val result" where
  "make_macro ps bdy env S =
     (Value (Macro (length (macros S))),
      S\<lparr>macros := macros S @
           [\<lparr>macro_params = ps, macro_body = bdy, macro_closure_env = env\<rparr>]\<rparr>)"

definition prim_fn :: "val \<Rightarrow> nat option \<Rightarrow> State \<Rightarrow> val result" where
  "prim_fn args env S = make_function (pair_car args) (pair_cdr args) env S"

definition prim_macro :: "val \<Rightarrow> nat option \<Rightarrow> State \<Rightarrow> val result" where
  "prim_macro args env S = make_macro (pair_car args) (pair_cdr args) env S"

text \<open>
  The loop of \<open>let\<close> over \<open>vars\<close>: each round takes a symbol and the expression after
  it, two elements of the list.
\<close>

fun let_bindings :: "evaluator \<Rightarrow> val \<Rightarrow> nat \<Rightarrow> State \<Rightarrow> unit result" where
  "let_bindings ev Nil e S = (Value (), S)"
| "let_bindings ev (Pair symv rest) e S =
     and_then (ev (pair_car rest) (Some e) S) (\<lambda>v S1.
     and_then (State_bind symv v (Some e) S1) (\<lambda>u S2.
     let_bindings ev (pair_cdr rest) e S2))"
| "let_bindings ev vars e S =
     and_then (ev Nil (Some e) S) (\<lambda>v S1.
     and_then (State_bind Nil v (Some e) S1) (\<lambda>u S2.
     (Value (), S2)))"

definition prim_let :: "evaluator \<Rightarrow> val \<Rightarrow> nat option \<Rightarrow> State \<Rightarrow> val result" where
  "prim_let ev args env S =
     (let (e, S0) = make_env env S
      in and_then (let_bindings ev (pair_car args) e S0) (\<lambda>u S1.
         State_do_list ev (pair_cdr args) (Some e) S1))"

definition prim_while :: "evaluator \<Rightarrow> nat \<Rightarrow> val \<Rightarrow> nat option \<Rightarrow> State \<Rightarrow> val result" where
  "prim_while ev k args env S =
     loop_while k
       (\<lambda>res S0. and_then (ev (pair_car args) env S0) (\<lambda>c S1. (Value (truthy c, res), S1)))
       (\<lambda>res S0. State_do_list ev (pair_cdr args) env S0)
       Nil S"

fun cond_clauses :: "evaluator \<Rightarrow> val \<Rightarrow> nat option \<Rightarrow> State \<Rightarrow> val result" where
  "cond_clauses ev (Pair clause rest) env S =
     (if clause = Nil then cond_clauses ev rest env S
      else
        and_then (ev (pair_car clause) env S) (\<lambda>tval S1.
          if truthy tval then State_do_list ev (pair_cdr clause) env S1
          else cond_clauses ev rest env S1))"
| "cond_clauses ev Nil env S = (Value Nil, S)"
| "cond_clauses ev clauses env S = (Value Nil, S)"

definition prim_cond :: "evaluator \<Rightarrow> val \<Rightarrow> nat option \<Rightarrow> State \<Rightarrow> val result" where
  "prim_cond ev args env S = cond_clauses ev args env S"

definition prim_apply ::
  "evaluator \<Rightarrow> caller \<Rightarrow> val \<Rightarrow> nat option \<Rightarrow> State \<Rightarrow> val result" where
  "prim_apply ev cl args env S =
     (if pair_car args = Nil then (Throw (RuntimeError ''apply requires a function''), S)
      else
        and_then (ev (pair_car args) env S) (\<lambda>fn S1.
        and_then (ev (pair_car (pair_cdr args)) env S1) (\<lambda>lst S2.
        cl fn lst S2)))"

text \<open>The special form registered under a name.\<close>

definition call_prim ::
  "evaluator \<Rightarrow> caller \<Rightarrow> nat \<Rightarrow> string \<Rightarrow> val \<Rightarrow> nat option \<Rightarrow> State \<Rightarrow> val result" where
  "call_prim ev cl k name args env S =
     (if name = ''quote'' then (prim_quote args, S)
      else if name = ''unquote'' then prim_unquote ev args env S
      else if name = ''quasiquote'' then prim_quasiquote ev args env S
      else if name = ''set'' then prim_set ev args env S
      else if name = ''fn'' then prim_fn args env S
      else if name = ''macro'' then prim_macro args env S
      else if name = ''let'' then prim_let ev args env S
      else if name = ''while'' then prim_while ev k args env S
      else if name = ''cond'' then prim_cond ev args env S
      else if name = ''apply'' then prim_apply ev cl args env S
      else (Undefined, S))"
subsection \<open>State::call\<close>

text \<open>
  The scan of the actuals: the doubles collected in \<open>darr\<close> and whether every actual
  was a number. The scan stops at the first actual that is not a number; \<open>None\<close> where
  it calls \<open>get_pair()\<close> on the non-nil tail of an improper list.
\<close>

fun numeric_args :: "val \<Rightarrow> (bool \<times> double list) option" where
  "numeric_args Nil = Some (True, [])"
| "numeric_args (Pair av rest) =
     (case av of
        Num d \<Rightarrow>
          (case numeric_args rest of
             Some (numeric, darr) \<Rightarrow> Some (numeric, d # darr)
           | None \<Rightarrow> None)
      | _ \<Rightarrow> Some (False, []))"
| "numeric_args a = None"

text \<open>
  The hot-path prologue of \<open>State::call\<close>: count the numeric call and, when the function
  has become hot, try to compile it.
\<close>

definition jit_wanted :: "FuncData \<Rightarrow> bool" where
  "jit_wanted fd = (3 < num_call_count fd \<and> compiled_code fd = None \<and> \<not> jit_failed fd)"

definition try_compile :: "nat \<Rightarrow> nat \<Rightarrow> State \<Rightarrow> unit result" where
  "try_compile k a S =
     (case compileFuncData k a S of
        (Value (Some c), S1) \<Rightarrow> (Value (), set_func a (\<lambda>f. f\<lparr>compiled_code := Some c\<rparr>) S1)
      | (Value None, S1) \<Rightarrow> (Value (), set_func a (\<lambda>f. f\<lparr>jit_failed := True\<rparr>) S1)
      | (Throw e, S1) \<Rightarrow> (Value (), set_func a (\<lambda>f. f\<lparr>jit_failed := True\<rparr>) S1)
      | (r, S1) \<Rightarrow> (pass r, S1))"

definition count_numeric_call :: "nat \<Rightarrow> nat \<Rightarrow> bool \<Rightarrow> State \<Rightarrow> unit result" where
  "count_numeric_call k a numeric S =
     (if numeric then
        (let S1 = set_func a (\<lambda>f. f\<lparr>num_call_count := num_call_count f + 1\<rparr>) S
         in if jit_wanted (funcs S1 ! a) then try_compile k a S1 else (Value (), S1))
      else (Value (), S))"

text \<open>
  The activation of a user function: a new environment under the closure environment
  (the global one when there is none) with the parameters bound.
\<close>

definition enter_function :: "FuncData \<Rightarrow> val \<Rightarrow> State \<Rightarrow> nat result" where
  "enter_function fd args S =
     (let (e, S1) = make_env (or_global S (closure_env fd)) S
      in case bind_params_to_env Map.empty (params fd) args False of
           None \<Rightarrow> (Undefined, S1)
         | Some m \<Rightarrow> (Value e, S1\<lparr>envs := (envs S1)[e := (envs S1 ! e)\<lparr>Env_map := m\<rparr>]\<rparr>))"

text \<open>The interpreter path at the end of \<open>State::call\<close>, with the call-chain frame.\<close>

definition call_interpreted :: "evaluator \<Rightarrow> FuncData \<Rightarrow> val \<Rightarrow> State \<Rightarrow> val result" where
  "call_interpreted ev fd args S =
     and_then (enter_function fd args S) (\<lambda>e S1.
       (case get_source_loc S1 (current_expr S1) of
          Some loc \<Rightarrow>
            (let call_loc = loc\<lparr>loc_label := ''fn''\<rparr>;
                 (r, S2) = State_do_list ev (body fd) (Some e) S1
             in (with_call_chain True call_loc [call_loc] r, S2))
        | None \<Rightarrow> State_do_list ev (body fd) (Some e) S1))"

text \<open>
  What \<open>State::call\<close> does with the result of the native entry. \<open>jit_threw\<close> tells that
  the invocation left by an exception, in which case \<open>res\<close> is a NaN.
\<close>

definition after_native ::
  "evaluator \<Rightarrow> nat \<Rightarrow> val \<Rightarrow> bool \<Rightarrow> double \<Rightarrow> State \<Rightarrow> val result" where
  "after_native ev a args jit_threw res S =
     (if fp_is_nan res then
        (let S1 = (if jit_threw
                   then set_func a (\<lambda>f. f\<lparr>compiled_code := None, jit_failed := True\<rparr>) S
                   else S);
             fd = funcs S1 ! a
         in and_then (enter_function fd args S1) (\<lambda>e S2.
            State_do_list ev (body fd) (Some e) S2))
      else (Value (make_number res), S))"

definition call_native ::
  "evaluator \<Rightarrow> native \<Rightarrow> nat \<Rightarrow> val \<Rightarrow> double list \<Rightarrow> State \<Rightarrow> val result" where
  "call_native ev nv a args darr S =
     (case nv a darr (S\<lparr>jit_active_state := True\<rparr>) of
        (Value res, S1) \<Rightarrow> after_native ev a args False res (S1\<lparr>jit_active_state := False\<rparr>)
      | (Throw e, S1) \<Rightarrow> after_native ev a args True fp_qnan (S1\<lparr>jit_active_state := False\<rparr>)
      | (r, S1) \<Rightarrow> (pass r, S1))"

definition call_func ::
  "evaluator \<Rightarrow> native \<Rightarrow> nat \<Rightarrow> nat \<Rightarrow> val \<Rightarrow> State \<Rightarrow> val result" where
  "call_func ev nv k a args S =
     (if a < length (funcs S) then
        (case numeric_args args of
           None \<Rightarrow> (Undefined, S)
         | Some (numeric, darr) \<Rightarrow>
             and_then (count_numeric_call k a numeric S) (\<lambda>u S1.
               if compiled_code (funcs S1 ! a) \<noteq> None \<and> numeric
               then call_native ev nv a args darr S1
               else call_interpreted ev (funcs S1 ! a) args S1))
      else (Undefined, S))"

definition call_step ::
  "World \<Rightarrow> evaluator \<Rightarrow> native \<Rightarrow> nat \<Rightarrow> val \<Rightarrow> val \<Rightarrow> State \<Rightarrow> val result" where
  "call_step W ev nv k fn args S =
     (case fn of
        Nil \<Rightarrow> (Throw (RuntimeError ''attempt to call nil''), S)
      | CFunc name \<Rightarrow> call_cfunc W ev name args S
      | Func a \<Rightarrow> call_func ev nv k a args S
      | _ \<Rightarrow> (Throw (RuntimeError ''not a function''), S))"

subsection \<open>The bridge and the native entry\<close>

fun number_list :: "double list \<Rightarrow> val" where
  "number_list [] = Nil"
| "number_list (d # ds) = Pair (make_number d) (number_list ds)"

text \<open>\<open>VDLISP__call_from_jit\<close>: every exception becomes a NaN.\<close>

definition call_from_jit :: "caller \<Rightarrow> nat \<Rightarrow> double list \<Rightarrow> State \<Rightarrow> double result" where
  "call_from_jit cl a args S =
     (if \<not> jit_active_state S then (Value fp_qnan, S)
      else
        (case cl (Func a) (number_list args) S of
           (Value (Num d), S1) \<Rightarrow> (Value d, S1)
         | (Value v, S1) \<Rightarrow> (Value fp_qnan, S1)
         | (Throw e, S1) \<Rightarrow> (Value fp_qnan, S1)
         | (r, S1) \<Rightarrow> (pass r, S1)))"

text \<open>The native entry of function \<open>a\<close>: its statements run on a fresh stack frame.\<close>

definition run_native :: "native \<Rightarrow> native \<Rightarrow> nat \<Rightarrow> nat \<Rightarrow> double list \<Rightarrow> State \<Rightarrow> double result" where
  "run_native nv br k a args S =
     (case heap_get (funcs S) a of
        None \<Rightarrow> (Undefined, S)
      | Some fd \<Rightarrow>
          (case compiled_code fd of
             None \<Rightarrow> (Undefined, S)
           | Some stmts \<Rightarrow>
               and_then (exec_stmts nv br k args stmts 0 Map.empty S)
                 (\<lambda>(res, st) S1. (Value res, S1))))"

subsection \<open>State::eval\<close>

text \<open>The annotation of an expansion by \<open>propagate\<close>.\<close>

fun propagate :: "SourceLoc \<Rightarrow> SourceLoc list \<Rightarrow> val \<Rightarrow> State \<Rightarrow> State" where
  "propagate call_loc entry Nil S = S"
| "propagate call_loc entry (Pair a d) S =
     (let v = Pair a d;
          S1 = set_source_loc v (loc_file call_loc) (loc_line call_loc) (loc_col call_loc) S;
          chain = (case src_call_chain_map S1 v of Some c \<Rightarrow> entry @ c | None \<Rightarrow> entry);
          S2 = S1\<lparr>src_call_chain_map := (src_call_chain_map S1)(v \<mapsto> chain)\<rparr>
      in propagate call_loc entry d (propagate call_loc entry a S2))"
| "propagate call_loc entry v S =
     (let S1 = set_source_loc v (loc_file call_loc) (loc_line call_loc) (loc_col call_loc) S;
          chain = (case src_call_chain_map S1 v of Some c \<Rightarrow> entry @ c | None \<Rightarrow> entry)
      in S1\<lparr>src_call_chain_map := (src_call_chain_map S1)(v \<mapsto> chain)\<rparr>)"

definition macro_call_loc :: "State \<Rightarrow> val \<Rightarrow> SourceLoc option" where
  \<comment> \<open>\<open>get_source_loc(current_expr, call_loc) || get_source_loc(expr, call_loc)\<close>\<close>
  "macro_call_loc S expr =
     (case get_source_loc S (current_expr S) of
        Some l \<Rightarrow> Some l
      | None \<Rightarrow> get_source_loc S expr)"

definition macro_chain_entry :: "State \<Rightarrow> MacroData \<Rightarrow> SourceLoc \<Rightarrow> SourceLoc list" where
  "macro_chain_entry S md call_loc =
     call_loc #
     (if macro_body md \<noteq> Nil then
        (case get_source_loc S (macro_body md) of
           Some def_loc \<Rightarrow> [def_loc\<lparr>loc_label := ''macro-def''\<rparr>]
         | None \<Rightarrow> [])
      else [])"

text \<open>
  The expansion of a macro call \<open>expr = (car . cdr)\<close>: the value of the macro body and
  the state with the expansion annotated.
\<close>

definition expand_macro :: "evaluator \<Rightarrow> nat \<Rightarrow> val \<Rightarrow> State \<Rightarrow> val result" where
  "expand_macro ev m expr S =
     (case heap_get (macros S) m of
        None \<Rightarrow> (Undefined, S)
      | Some md \<Rightarrow>
          (let (e, S1) = make_env (macro_closure_env md) S
           in case bind_params_to_env Map.empty (macro_params md) (pair_cdr expr) True of
                None \<Rightarrow> (Undefined, S1)
              | Some bound \<Rightarrow>
                  (let S2 = S1\<lparr>envs := (envs S1)[e := (envs S1 ! e)\<lparr>Env_map := bound\<rparr>]\<rparr>
                   in case macro_call_loc S2 expr of
                        None \<Rightarrow> State_do_list ev (macro_body md) (Some e) S2
                      | Some loc \<Rightarrow>
                          (let call_loc =
                                 loc\<lparr>loc_label :=
                                       (case pair_car expr of
                                          Sym s \<Rightarrow> ''macro '' @ s
                                        | _ \<Rightarrow> ''macro'')\<rparr>;
                               entry = macro_chain_entry S2 md call_loc;
                               S3 = S2\<lparr>src_call_chain_map :=
                                          (src_call_chain_map S2)(expr \<mapsto> entry)\<rparr>;
                               (r, S4) = State_do_list ev (macro_body md) (Some e) S3
                           in case with_call_chain True call_loc entry r of
                                Value res \<Rightarrow> (Value res, propagate call_loc entry res S4)
                              | r' \<Rightarrow> (r', S4)))))"

text \<open>
  \<open>EvalContext\<close>: \<open>current_expr\<close> is set on entry; a return after \<open>commit()\<close> restores the
  previous value, and an exit without it leaves \<open>current_expr\<close> as it is.
\<close>

definition commit :: "val \<Rightarrow> val result \<Rightarrow> val result" where
  "commit prev r = (case r of (Value v, S) \<Rightarrow> (Value v, S\<lparr>current_expr := prev\<rparr>) | _ \<Rightarrow> r)"

definition unbound_symbol :: "State \<Rightarrow> val \<Rightarrow> string \<Rightarrow> error" where
  "unbound_symbol S expr s =
     (case get_source_loc S expr of
        Some sl \<Rightarrow> ParseError sl (''unbound symbol: '' @ s) []
      | None \<Rightarrow> RuntimeError (''unbound symbol: '' @ s))"

definition eval_symbol :: "val \<Rightarrow> string \<Rightarrow> nat option \<Rightarrow> State \<Rightarrow> val result" where
  "eval_symbol prev s env S =
     (case env_lookup S env s of
        Value (Some (e, v)) \<Rightarrow> (Value v, S\<lparr>current_expr := prev\<rparr>)
      | Value None \<Rightarrow> (Throw (unbound_symbol S (Sym s) s), S)
      | r \<Rightarrow> (pass r, S))"

definition eval_pair ::
  "evaluator \<Rightarrow> caller \<Rightarrow> nat \<Rightarrow> val \<Rightarrow> val \<Rightarrow> nat option \<Rightarrow> State \<Rightarrow> val result" where
  "eval_pair ev cl k prev expr env S =
     and_then (ev (pair_car expr) env S) (\<lambda>fn S1.
       case fn of
         Nil \<Rightarrow> (Throw (RuntimeError ''attempt to call nil''), S1)
       | Prim name \<Rightarrow> commit prev (call_prim ev cl k name (pair_cdr expr) env S1)
       | Macro m \<Rightarrow>
           (case expand_macro ev m expr S1 of
              (Value res, S2) \<Rightarrow>
                (let (r, S3) = ev res env S2 in (r, S3\<lparr>current_expr := prev\<rparr>))
            | (r, S2) \<Rightarrow> (r, S2))
       | _ \<Rightarrow>
           and_then (eval_args ev (pair_cdr expr) env S1) (\<lambda>args S2.
           commit prev (cl fn args S2)))"

definition eval_step ::
  "evaluator \<Rightarrow> caller \<Rightarrow> nat \<Rightarrow> val \<Rightarrow> nat option \<Rightarrow> State \<Rightarrow> val result" where
  "eval_step ev cl k expr env S =
     (let prev = current_expr S;
          S0 = S\<lparr>current_expr := expr\<rparr>
      in case expr of
           Nil \<Rightarrow> (Value Nil, S0)
         | Sym s \<Rightarrow> eval_symbol prev s (or_global S0 env) S0
         | Pair car cdr \<Rightarrow> eval_pair ev cl k prev expr (or_global S0 env) S0
         | _ \<Rightarrow> (Value expr, S0\<lparr>current_expr := prev\<rparr>))"

subsection \<open>Closing the recursion\<close>

text \<open>
  The first argument bounds the depth of the recursion and the iterations of each loop;
  \<open>OutOfFuel\<close> says that the bound was reached, not that the program stops.
\<close>

fun State_eval :: "nat \<Rightarrow> World \<Rightarrow> val \<Rightarrow> nat option \<Rightarrow> State \<Rightarrow> val result"
  and State_call :: "nat \<Rightarrow> World \<Rightarrow> val \<Rightarrow> val \<Rightarrow> State \<Rightarrow> val result"
  and native_entry :: "nat \<Rightarrow> World \<Rightarrow> nat \<Rightarrow> double list \<Rightarrow> State \<Rightarrow> double result" where
  "State_eval 0 W expr env S = (OutOfFuel, S)"
| "State_eval (Suc n) W expr env S =
     eval_step (\<lambda>e v s. State_eval n W e v s) (\<lambda>f a s. State_call n W f a s) n expr env S"
| "State_call 0 W fn args S = (OutOfFuel, S)"
| "State_call (Suc n) W fn args S =
     call_step W (\<lambda>e v s. State_eval n W e v s) (\<lambda>a d s. native_entry n W a d s) n fn args S"
| "native_entry 0 W a args S = (OutOfFuel, S)"
| "native_entry (Suc n) W a args S =
     run_native (\<lambda>b d s. native_entry n W b d s)
       (call_from_jit (\<lambda>f x s. State_call n W f x s)) n a args S"

section \<open>Start-up (State::State, register_core, main.cpp)\<close>

definition empty_State :: State where
  "empty_State =
     \<lparr>global = None, envs = [], funcs = [], macros = [], current_expr = Nil,
      src_map = Map.empty, src_call_chain_map = Map.empty, sources = Map.empty,
      loaded_modules = Map.empty, out = [], jit_active_state = False\<rparr>"

definition register_builtin :: "string \<Rightarrow> State \<Rightarrow> State" where
  "register_builtin name S = bind_global name (CFunc name) S"

definition register_prim :: "string \<Rightarrow> State \<Rightarrow> State" where
  "register_prim name S = bind_global name (Prim name) S"

definition builtin_names :: "string list" where
  "builtin_names =
     [''print'', ''+'', ''-'', ''*'', ''/'', ''<'', ''>'', ''<='', ''>='', ''list'', ''type'',
      ''parse'', ''error'', ''cons'', ''car'', ''cdr'', ''setcar'', ''setcdr'', ''='', ''exit'',
      ''require'']"

definition prim_names :: "string list" where
  "prim_names =
     [''quote'', ''unquote'', ''quasiquote'', ''set'', ''fn'', ''macro'', ''let'', ''while'',
      ''cond'', ''apply'']"

definition register_core :: "State \<Rightarrow> State" where
  "register_core S = fold register_prim prim_names (fold register_builtin builtin_names S)"

text \<open>The constructor \<open>State::State()\<close>.\<close>

definition State_init :: State where
  "State_init =
     (let (g, S1) = make_env None empty_State
      in bind_global ''#t'' (Sym ''#t'') (register_core (S1\<lparr>global := Some g\<rparr>)))"

text \<open>
  \<open>make_string_list(argc, argv, start)\<close>: the strings \<open>argv[start]\<close> to \<open>argv[argc - 1]\<close> as
  a list. \<open>argv\<close> is the list of the \<open>argc\<close> command-line words, the program name first;
  the range \<open>argv + start\<close> to \<open>argv + argc\<close> is no range when \<open>start\<close> exceeds \<open>argc\<close>.
\<close>

fun string_list :: "string list \<Rightarrow> val" where
  "string_list [] = Nil"
| "string_list (b # bs) = Pair (Str b) (string_list bs)"

definition make_string_list :: "string list \<Rightarrow> nat \<Rightarrow> val option" where
  "make_string_list argv start =
     (if start \<le> length argv then Some (string_list (drop start argv)) else None)"

text \<open>The statement of \<open>main\<close> that binds \<open>argv\<close>.\<close>

definition main_bind_argv :: "string list \<Rightarrow> State \<Rightarrow> State option" where
  "main_bind_argv argv S =
     (case make_string_list argv 1 of
        Some l \<Rightarrow> Some (bind_global ''argv'' l S)
      | None \<Rightarrow> None)"

text \<open>
  \<open>main\<close> up to the point where the script or the prompt takes over: the state is
  built, \<open>argv\<close> is bound, and \<open>scripts/lang_basics.lisp\<close> is loaded when it exists, any
  exception from it being dropped.
\<close>

definition load_lang_basics :: "World \<Rightarrow> nat \<Rightarrow> State \<Rightarrow> unit result" where
  "load_lang_basics W n S =
     (if fs_exists W ''scripts/lang_basics.lisp'' then
        (case fs_read W ''scripts/lang_basics.lisp'' of
           None \<Rightarrow> (Value (), S)
         | Some src \<Rightarrow>
             (case State_parse_all W src ''scripts/lang_basics.lisp'' S of
                (Value le, S1) \<Rightarrow>
                  (if le \<noteq> Nil then
                     (case State_do_list (State_eval n W) le (global S1) S1 of
                        (Value v, S2) \<Rightarrow> (Value (), S2)
                      | (Throw e, S2) \<Rightarrow> (Value (), S2)
                      | (r, S2) \<Rightarrow> (pass r, S2))
                   else (Value (), S1))
              | (Throw e, S1) \<Rightarrow> (Value (), S1)
              | (r, S1) \<Rightarrow> (pass r, S1)))
      else (Value (), S))"

definition main_startup :: "World \<Rightarrow> nat \<Rightarrow> string list \<Rightarrow> unit result" where
  "main_startup W n argv =
     (case main_bind_argv argv State_init of
        None \<Rightarrow> (Undefined, State_init)
      | Some S \<Rightarrow> load_lang_basics W n S)"

text \<open>
  \<open>main\<close> with a script: the exit status and the final state. What goes to \<open>std::cerr\<close>
  is not modelled, and neither is the prompt that \<open>main\<close> enters without a script.
\<close>

definition main_script :: "World \<Rightarrow> nat \<Rightarrow> string list \<Rightarrow> int result" where
  "main_script W n argv =
     and_then (main_startup W n argv) (\<lambda>u S.
       if length argv < 2 then (Undefined, S)
       else
         (case fs_read W (argv ! 1) of
            None \<Rightarrow> (Value 1, S)
          | Some src \<Rightarrow>
              (case State_parse_all W src (argv ! 1) S of
                 (Value e, S1) \<Rightarrow>
                   (if e \<noteq> Nil then
                      (case State_do_list (State_eval n W) e (global S1) S1 of
                         (Value r, S2) \<Rightarrow>
                           (Value 0, S2\<lparr>out := out S2 @ to_string W S2 r @ [CHR 0x0A]\<rparr>)
                       | (Throw ex, S2) \<Rightarrow> (Value 1, S2)
                       | (r, S2) \<Rightarrow> (pass r, S2))
                    else (Value 0, S1))
               | (Throw ex, S1) \<Rightarrow> (Value 1, S1)
               | (r, S1) \<Rightarrow> (pass r, S1))))"

section \<open>Properties of the value representation\<close>

lemma fp_exp_all_ones: "fp_exp d = 2047 \<longleftrightarrow> drop_bit 52 d AND 0x7FF = 0x7FF"
proof -
  have "unat (2047 :: 64 word) = 2047" by simp
  then show ?thesis unfolding fp_exp_def by (metis word_unat_eq_iff)
qed

lemma exponent_field_mask:
  "drop_bit 52 d AND 0x7FF = 0x7FF \<longleftrightarrow> d AND kNaNMask = kNaNMask" for d :: "64 word"
proof -
  have m1: "(0x7FF :: 64 word) = mask 11" by (simp add: mask_eq_exp_minus_1)
  have m2: "(0x7FF0000000000000 :: 64 word) = push_bit 52 (mask 11)"
    by (simp add: mask_eq_exp_minus_1 push_bit_eq_mult)
  have "(drop_bit 52 d AND mask 11 = mask 11) \<longleftrightarrow> (\<forall>n<11. bit d (52 + n))"
    apply (simp add: bit_eq_iff bit_simps)
    apply (rule iffI)
     apply (intro allI impI)
    subgoal for n
      apply (drule spec [of _ n])
      apply simp
      done
    apply auto
    done
  moreover have "(d AND push_bit 52 (mask 11) = push_bit 52 (mask 11)) \<longleftrightarrow> (\<forall>n<11. bit d (52 + n))"
    apply (simp add: bit_eq_iff bit_simps)
    apply (rule iffI)
     apply (intro allI impI)
    subgoal for n
      apply (drule spec [of _ "52 + n"])
      apply simp
      done
    apply (intro allI impI)
    subgoal for n
      apply (drule spec [of _ "n - 52"])
      apply auto
      done
    done
  ultimately show ?thesis unfolding kNaNMask_def m1 m2 by simp
qed

text \<open>
  The reserved region of \<open>set_number\<close> (all exponent bits set) holds exactly the NaNs and
  the two infinities.
\<close>

lemma reserved_region_iff: "d AND kNaNMask = kNaNMask \<longleftrightarrow> fp_is_nan d \<or> fp_is_inf d"
  using fp_exp_all_ones [of d] exponent_field_mask [of d]
  by (auto simp: fp_is_nan_def fp_is_inf_def)

lemma make_number_bits_eq:
  "make_number_bits d = (if fp_is_nan d \<or> fp_is_inf d then 0 else d)"
  by (simp add: make_number_bits_def set_number_def reserved_region_iff)

lemma make_number_eq: "make_number d = (if fp_is_nan d \<or> fp_is_inf d then Num 0 else Num d)"
  by (simp add: make_number_def make_number_bits_eq)

lemma get_type_make_number_bits: "get_type (make_number_bits d) = TNUMBER"
  by (simp add: get_type_def make_number_bits_def set_number_def kNaNMask_def)

text \<open>
  C6. For every double \<open>d\<close> in the reserved exponent-all-ones region (every NaN and both
  infinities), constructing a number value from \<open>d\<close> stores the bit pattern of numeric
  zero, so the value is the number 0.0; for every other double the stored number reads
  back bit for bit as \<open>d\<close>.
\<close>

theorem make_number_reserved_region:
  "get_type (make_number_bits d) = TNUMBER
   \<and> (fp_is_nan d \<or> fp_is_inf d \<longrightarrow> make_number_bits d = 0 \<and> make_number d = Num 0)
   \<and> (\<not> (fp_is_nan d \<or> fp_is_inf d) \<longrightarrow>
        get_number (make_number_bits d) = d \<and> make_number d = Num d)"
proof -
  have a: "get_type (make_number_bits d) = TNUMBER"
    by (rule get_type_make_number_bits)
  have b: "fp_is_nan d \<or> fp_is_inf d \<longrightarrow> make_number_bits d = 0 \<and> make_number d = Num 0"
    by (simp add: make_number_bits_eq make_number_eq)
  have c: "\<not> (fp_is_nan d \<or> fp_is_inf d) \<longrightarrow>
        get_number (make_number_bits d) = d \<and> make_number d = Num d"
    by (simp add: make_number_bits_eq make_number_eq get_number_def)
  from a b c show ?thesis by blast
qed

theorem make_number_reserved_region_witness:
  "(fp_is_nan 0x7FF8000000000000 \<or> fp_is_inf 0x7FF8000000000000)
   \<and> make_number 0x7FF8000000000000 = Num 0
   \<and> (fp_is_nan 0xFFF0000000000000 \<or> fp_is_inf 0xFFF0000000000000)
   \<and> make_number 0xFFF0000000000000 = Num 0
   \<and> \<not> (fp_is_nan 0x3FF0000000000000 \<or> fp_is_inf 0x3FF0000000000000)
   \<and> get_number (make_number_bits 0x3FF0000000000000) = 0x3FF0000000000000"
proof -
  have h1: "fp_is_nan 0x7FF8000000000000 \<or> fp_is_inf 0x7FF8000000000000"
    by (simp add: fp_is_nan_def fp_is_inf_def fp_exp_def fp_frac_def)
  have h2: "fp_is_nan 0xFFF0000000000000 \<or> fp_is_inf 0xFFF0000000000000"
    by (simp add: fp_is_nan_def fp_is_inf_def fp_exp_def fp_frac_def)
  have h3: "\<not> (fp_is_nan 0x3FF0000000000000 \<or> fp_is_inf 0x3FF0000000000000)"
    by (simp add: fp_is_nan_def fp_is_inf_def fp_exp_def fp_frac_def)
  show ?thesis
    using h1 h2 h3
      make_number_reserved_region [of "0x7FF8000000000000"]
      make_number_reserved_region [of "0xFFF0000000000000"]
      make_number_reserved_region [of "0x3FF0000000000000"]
    by blast
qed

end
